theory Spec2Isabelle
  imports Main "HOL-Library.AList" "HOL-Library.Word"
begin

unbundle bit_operations_syntax

section \<open>Python values the program handles\<close>

text \<open>
  A Python \<open>dict\<close> is an association list in insertion order with distinct keys:
  storing under a key that is present replaces the value in place, storing under a new
  key appends (\<open>AList.update\<close>). \<open>py_dict\<close> builds a dict from a sequence of pairs,
  as \<open>dict(zip(...))\<close>, a dict comprehension and keyword arguments do: the last
  value of a repeated key wins. \<open>dict_update\<close> is \<open>d.update(e)\<close>.
\<close>

type_synonym ('k, 'v) dict = "('k \<times> 'v) list"

definition dict_update :: "('k, 'v) dict \<Rightarrow> ('k \<times> 'v) list \<Rightarrow> ('k, 'v) dict" where
  "dict_update d kvs = fold (\<lambda>kv acc. AList.update (fst kv) (snd kv) acc) kvs d"

definition py_dict :: "('k \<times> 'v) list \<Rightarrow> ('k, 'v) dict" where
  "py_dict kvs = dict_update [] kvs"

definition dict_get :: "('k, 'v) dict \<Rightarrow> 'k \<Rightarrow> 'v \<Rightarrow> 'v" where
  "dict_get d k dflt = (case map_of d k of None \<Rightarrow> dflt | Some v \<Rightarrow> v)"

text \<open>
  Exceptions are values. \<open>HTTPException n\<close> is FastAPI's exception with status code
  \<open>n\<close>; every other exception that leaves an endpoint is answered with status 500.
\<close>

datatype exn =
    HTTPException nat
  | ValueError
  | HttpError
  | KeyError
  | AttributeError
  | InvalidToken
  | ValidationError
  | IntegrityError
  | OSError

fun http_status :: "exn \<Rightarrow> nat" where
  "http_status (HTTPException n) = n"
| "http_status _ = 500"

section \<open>security.py\<close>

text \<open>
  Times are microseconds since the epoch and a \<open>timedelta\<close> is a number of
  microseconds, the resolution of Python's \<open>datetime\<close>. A JWT is modelled by what
  it carries: the signing key and the claims; \<open>jwt.encode\<close> writes a \<open>datetime\<close>
  claim as whole seconds since the epoch.
\<close>

type_synonym timedelta = int

definition timedelta_minutes :: "int \<Rightarrow> timedelta" where
  "timedelta_minutes m = m * 60 * 1000000"

datatype claim = ClaimStr string | ClaimDatetime int

datatype jwt_value = JwtStr string | JwtInt int

record jwt =
  jwt_key :: string
  jwt_claims :: "(string, jwt_value) dict"

definition ALGORITHM :: string where
  "ALGORITHM = ''HS256''"

definition ACCESS_TOKEN_EXPIRE_MINUTES :: int where
  "ACCESS_TOKEN_EXPIRE_MINUTES = 60 * 24"

fun jwt_claim :: "claim \<Rightarrow> jwt_value" where
  "jwt_claim (ClaimStr s) = JwtStr s"
| "jwt_claim (ClaimDatetime t) = JwtInt (t div 1000000)"

definition jwt_encode :: "(string, claim) dict \<Rightarrow> string \<Rightarrow> jwt" where
  "jwt_encode to_encode key =
     \<lparr>jwt_key = key, jwt_claims = map (\<lambda>(k, v). (k, jwt_claim v)) to_encode\<rparr>"

text \<open>
  \<open>create_access_token\<close>: \<open>now\<close> is the reading of \<open>datetime.now(timezone.utc)\<close>.
  The test \<open>if expires_delta:\<close> is Python truthiness: \<open>None\<close> and the zero
  \<open>timedelta\<close> both take the 15-minute branch.
\<close>

definition create_access_token ::
  "string \<Rightarrow> int \<Rightarrow> (string, claim) dict \<Rightarrow> timedelta option \<Rightarrow> jwt" where
  "create_access_token JWT_SECRET_KEY now data expires_delta =
     (let to_encode = data;
          expire = (case expires_delta of
                      Some d \<Rightarrow> (if d \<noteq> 0 then now + d else now + timedelta_minutes 15)
                    | None \<Rightarrow> now + timedelta_minutes 15);
          to_encode = dict_update to_encode [(''exp'', ClaimDatetime expire)]
      in jwt_encode to_encode JWT_SECRET_KEY)"

section \<open>database.py\<close>

text \<open>
  A value of an SQLite column as Python reads it: \<open>None\<close>, a \<open>str\<close> or
  \<open>bytes\<close>. The table \<open>users\<close> is the list of its rows; \<open>email\<close> is the
  primary key, \<open>name\<close> and \<open>encrypted_refresh_token\<close> are \<open>TEXT NOT NULL\<close>,
  \<open>spreadsheet_id\<close> is a nullable column. \<open>SELECT ... WHERE email = ?\<close> with
  \<open>fetchone\<close> is the first row with that email, \<open>UPDATE ... WHERE email = ?\<close>
  rewrites every row with that email, \<open>INSERT\<close> appends a row.
\<close>

datatype dbval = Null | Text string | Blob "8 word list"

record user_row =
  email :: string
  name :: string
  encrypted_refresh_token :: string
  spreadsheet_id :: dbval

type_synonym users_table = "user_row list"

definition get_user_by_email :: "string \<Rightarrow> users_table \<Rightarrow> user_row option" where
  "get_user_by_email e db = find (\<lambda>row. email row = e) db"

definition save_or_update_user ::
  "string \<Rightarrow> string \<Rightarrow> string \<Rightarrow> users_table \<Rightarrow> users_table" where
  "save_or_update_user e n tok db =
     (let user_exists = find (\<lambda>row. email row = e) db in
      if user_exists \<noteq> None
      then map (\<lambda>row. if email row = e then row\<lparr>name := n, encrypted_refresh_token := tok\<rparr> else row) db
      else db @ [\<lparr>email = e, name = n, encrypted_refresh_token = tok, spreadsheet_id = Null\<rparr>])"

definition update_spreadsheet_id :: "string \<Rightarrow> string \<Rightarrow> users_table \<Rightarrow> users_table" where
  "update_spreadsheet_id e sid db =
     map (\<lambda>row. if email row = e then row\<lparr>spreadsheet_id := Text sid\<rparr> else row) db"

section \<open>The spreadsheet service\<close>

text \<open>
  The spreadsheet service is outside the repository. It is modelled by what the program
  can observe of it: a spreadsheet is a list of sheets, and the cells of a sheet are the
  list of rows that \<open>values().get\<close> answers for the range \<open>A:Z\<close>. Every request is
  appended to \<open>requests\<close>, so that a theorem can say which requests an operation
  issued. A request can fail (\<open>HttpError\<close>): \<open>faults\<close> holds one flag for each
  coming request, \<open>True\<close> for one that fails, and every request past the end of the
  list is answered. \<open>remote_ids\<close> are the identifiers the service hands out to new
  spreadsheets, in order.
\<close>

type_synonym grid = "string list list"

record sheet =
  sheetId :: nat
  title :: string
  cells :: grid

datatype batch_request =
    AddSheet string
  | DeleteSheet nat
  | DeleteDimension nat nat nat

datatype api_call =
    SpreadsheetsCreate string
  | SpreadsheetsGet string
  | SpreadsheetsBatchUpdate string "batch_request list"
  | ValuesBatchUpdate string "(string \<times> grid) list"
  | ValuesAppend string string "string list"
  | ValuesGet string string
  | ValuesUpdate string string nat "string list"

record world =
  users :: users_table
  session_storage :: "(string, string) dict"
  drive :: "string \<rightharpoonup> sheet list"
  requests :: "api_call list"
  faults :: "bool list"
  remote_ids :: "string list"

definition issue :: "api_call \<Rightarrow> world \<Rightarrow> bool \<times> world" where
  "issue c w =
     (case faults w of
        [] \<Rightarrow> (True, w\<lparr>requests := requests w @ [c]\<rparr>)
      | f # fs \<Rightarrow> (\<not> f, w\<lparr>requests := requests w @ [c], faults := fs\<rparr>))"

definition find_sheet :: "string \<Rightarrow> sheet list \<Rightarrow> sheet option" where
  "find_sheet t ss = find (\<lambda>s. title s = t) ss"

definition map_sheet :: "string \<Rightarrow> (grid \<Rightarrow> grid) \<Rightarrow> sheet list \<Rightarrow> sheet list" where
  "map_sheet t f ss = map (\<lambda>s. if title s = t then s\<lparr>cells := f (cells s)\<rparr> else s) ss"

definition write_row :: "nat \<Rightarrow> string list \<Rightarrow> grid \<Rightarrow> grid" where
  "write_row i vs g =
     (let g' = g @ replicate (Suc i - length g) []
      in g'[i := vs @ drop (length vs) (g' ! i)])"

fun write_rows :: "nat \<Rightarrow> grid \<Rightarrow> grid \<Rightarrow> grid" where
  "write_rows i [] g = g"
| "write_rows i (r # rs) g = write_rows (Suc i) rs (write_row i r g)"

definition delete_rows :: "nat \<Rightarrow> nat \<Rightarrow> grid \<Rightarrow> grid" where
  "delete_rows start stop g = take start g @ drop stop g"

definition spreadsheets_create :: "string \<Rightarrow> world \<Rightarrow> (exn + string) \<times> world" where
  "spreadsheets_create t w =
     (let (ok, w1) = issue (SpreadsheetsCreate t) w in
      if \<not> ok then (Inl HttpError, w1)
      else (case remote_ids w1 of
              [] \<Rightarrow> (Inl HttpError, w1)
            | i # ids \<Rightarrow>
                (Inr i, w1\<lparr>remote_ids := ids,
                           drive := (drive w1)(i \<mapsto> [\<lparr>sheetId = 0, title = ''Sheet1'', cells = []\<rparr>])\<rparr>)))"

definition spreadsheets_get ::
  "string \<Rightarrow> world \<Rightarrow> (exn + (nat \<times> string) list) \<times> world" where
  "spreadsheets_get sid w =
     (let (ok, w1) = issue (SpreadsheetsGet sid) w in
      if \<not> ok then (Inl HttpError, w1)
      else (case drive w1 sid of
              None \<Rightarrow> (Inl HttpError, w1)
            | Some ss \<Rightarrow> (Inr (map (\<lambda>s. (sheetId s, title s)) ss), w1)))"

fun apply_request :: "batch_request \<Rightarrow> sheet list \<Rightarrow> sheet list option" where
  "apply_request (AddSheet t) ss =
     (if find_sheet t ss \<noteq> None then None
      else Some (ss @ [\<lparr>sheetId = Suc (fold max (map sheetId ss) 0), title = t, cells = []\<rparr>]))"
| "apply_request (DeleteSheet i) ss =
     (if i \<notin> set (map sheetId ss) \<or> length ss \<le> 1 then None
      else Some (filter (\<lambda>s. sheetId s \<noteq> i) ss))"
| "apply_request (DeleteDimension i start stop) ss =
     (if i \<notin> set (map sheetId ss) then None
      else Some (map (\<lambda>s. if sheetId s = i then s\<lparr>cells := delete_rows start stop (cells s)\<rparr> else s) ss))"

fun apply_requests :: "batch_request list \<Rightarrow> sheet list \<Rightarrow> sheet list option" where
  "apply_requests [] ss = Some ss"
| "apply_requests (r # rs) ss =
     (case apply_request r ss of None \<Rightarrow> None | Some ss' \<Rightarrow> apply_requests rs ss')"

definition spreadsheets_batch_update ::
  "string \<Rightarrow> batch_request list \<Rightarrow> world \<Rightarrow> (exn + unit) \<times> world" where
  "spreadsheets_batch_update sid reqs w =
     (let (ok, w1) = issue (SpreadsheetsBatchUpdate sid reqs) w in
      if \<not> ok then (Inl HttpError, w1)
      else (case drive w1 sid of
              None \<Rightarrow> (Inl HttpError, w1)
            | Some ss \<Rightarrow>
                (case apply_requests reqs ss of
                   None \<Rightarrow> (Inl HttpError, w1)
                 | Some ss' \<Rightarrow> (Inr (), w1\<lparr>drive := (drive w1)(sid \<mapsto> ss')\<rparr>))))"

definition values_batch_update ::
  "string \<Rightarrow> (string \<times> grid) list \<Rightarrow> world \<Rightarrow> (exn + unit) \<times> world" where
  "values_batch_update sid data w =
     (let (ok, w1) = issue (ValuesBatchUpdate sid data) w in
      if \<not> ok then (Inl HttpError, w1)
      else (case drive w1 sid of
              None \<Rightarrow> (Inl HttpError, w1)
            | Some ss \<Rightarrow>
                (if \<exists>d \<in> set data. find_sheet (fst d) ss = None then (Inl HttpError, w1)
                 else (Inr (), w1\<lparr>drive := (drive w1)(sid \<mapsto>
                         fold (\<lambda>d acc. map_sheet (fst d) (write_rows 0 (snd d)) acc) data ss)\<rparr>))))"

definition values_append ::
  "string \<Rightarrow> string \<Rightarrow> string list \<Rightarrow> world \<Rightarrow> (exn + unit) \<times> world" where
  "values_append sid t row w =
     (let (ok, w1) = issue (ValuesAppend sid t row) w in
      if \<not> ok then (Inl HttpError, w1)
      else (case drive w1 sid of
              None \<Rightarrow> (Inl HttpError, w1)
            | Some ss \<Rightarrow>
                (if find_sheet t ss = None then (Inl HttpError, w1)
                 else (Inr (), w1\<lparr>drive := (drive w1)(sid \<mapsto> map_sheet t (\<lambda>g. g @ [row]) ss)\<rparr>))))"

definition values_get :: "string \<Rightarrow> string \<Rightarrow> world \<Rightarrow> (exn + grid) \<times> world" where
  "values_get sid t w =
     (let (ok, w1) = issue (ValuesGet sid t) w in
      if \<not> ok then (Inl HttpError, w1)
      else (case drive w1 sid of
              None \<Rightarrow> (Inl HttpError, w1)
            | Some ss \<Rightarrow>
                (case find_sheet t ss of
                   None \<Rightarrow> (Inl HttpError, w1)
                 | Some s \<Rightarrow> (Inr (cells s), w1))))"

definition values_update ::
  "string \<Rightarrow> string \<Rightarrow> nat \<Rightarrow> string list \<Rightarrow> world \<Rightarrow> (exn + unit) \<times> world" where
  "values_update sid t row_index row w =
     (let (ok, w1) = issue (ValuesUpdate sid t row_index row) w in
      if \<not> ok then (Inl HttpError, w1)
      else (case drive w1 sid of
              None \<Rightarrow> (Inl HttpError, w1)
            | Some ss \<Rightarrow>
                (if find_sheet t ss = None \<or> row_index = 0 then (Inl HttpError, w1)
                 else (Inr (), w1\<lparr>drive := (drive w1)(sid \<mapsto>
                         map_sheet t (write_row (row_index - 1) row) ss)\<rparr>))))"

section \<open>Strings, numbers and dates of Python\<close>

text \<open>
  Strings are byte strings; \<open>lower\<close> and \<open>upper\<close> are modelled on ASCII letters,
  which is what the headers of \<open>SHEET_STRUCTURE\<close> and hexadecimal digits are.
\<close>

definition lower_char :: "char \<Rightarrow> char" where
  "lower_char c = (let n = (of_char c :: nat) in if 65 \<le> n \<and> n \<le> 90 then char_of (n + 32) else c)"

definition upper_char :: "char \<Rightarrow> char" where
  "upper_char c = (let n = (of_char c :: nat) in if 97 \<le> n \<and> n \<le> 122 then char_of (n - 32) else c)"

definition lower :: "string \<Rightarrow> string" where
  "lower s = map lower_char s"

definition upper :: "string \<Rightarrow> string" where
  "upper s = map upper_char s"

definition replace_char :: "char \<Rightarrow> char \<Rightarrow> string \<Rightarrow> string" where
  "replace_char a b s = map (\<lambda>c. if c = a then b else c) s"

definition digit_char :: "nat \<Rightarrow> char" where
  "digit_char d = char_of (48 + d)"

definition digit_val :: "char \<Rightarrow> nat option" where
  "digit_val c = (let n = (of_char c :: nat) in if 48 \<le> n \<and> n \<le> 57 then Some (n - 48) else None)"

fun str_nat :: "nat \<Rightarrow> string" where
  "str_nat n = (if n < 10 then [digit_char n] else str_nat (n div 10) @ [digit_char (n mod 10)])"

declare str_nat.simps [simp del]

definition str_int :: "int \<Rightarrow> string" where
  "str_int i = (if i < 0 then CHR ''-'' # str_nat (nat (- i)) else str_nat (nat i))"

fun parse_digits :: "nat \<Rightarrow> string \<Rightarrow> nat option" where
  "parse_digits acc [] = Some acc"
| "parse_digits acc (c # cs) =
     (case digit_val c of None \<Rightarrow> None | Some d \<Rightarrow> parse_digits (10 * acc + d) cs)"

definition parse_nat :: "string \<Rightarrow> nat option" where
  "parse_nat s = (if s = [] then None else parse_digits 0 s)"

definition parse_int :: "string \<Rightarrow> int option" where
  "parse_int s =
     (case s of
        [] \<Rightarrow> None
      | c # cs \<Rightarrow>
          (if c = CHR ''-'' then map_option (\<lambda>n. - int n) (parse_nat cs)
           else if c = CHR ''+'' then map_option int (parse_nat cs)
           else map_option int (parse_nat s)))"

definition zfill :: "nat \<Rightarrow> string \<Rightarrow> string" where
  "zfill k s = replicate (k - length s) (CHR ''0'') @ s"

text \<open>A \<open>datetime.date\<close> is a year from 1 to 9999, a month and a day of that month.\<close>

definition is_leap :: "nat \<Rightarrow> bool" where
  "is_leap y = (y mod 4 = 0 \<and> (y mod 100 \<noteq> 0 \<or> y mod 400 = 0))"

definition days_in_month :: "nat \<Rightarrow> nat \<Rightarrow> nat" where
  "days_in_month y m =
     (if m = 2 then (if is_leap y then 29 else 28)
      else if m = 4 \<or> m = 6 \<or> m = 9 \<or> m = 11 then 30 else 31)"

definition valid_date :: "nat \<Rightarrow> nat \<Rightarrow> nat \<Rightarrow> bool" where
  "valid_date y m d = (1 \<le> y \<and> y \<le> 9999 \<and> 1 \<le> m \<and> m \<le> 12 \<and> 1 \<le> d \<and> d \<le> days_in_month y m)"

definition isoformat :: "nat \<Rightarrow> nat \<Rightarrow> nat \<Rightarrow> string" where
  "isoformat y m d = zfill 4 (str_nat y) @ ''-'' @ zfill 2 (str_nat m) @ ''-'' @ zfill 2 (str_nat d)"

datatype pyval =
    PyNone
  | PyStr string
  | PyInt int
  | PyFloat "64 word"
  | PyDate nat nat nat

text \<open>The type of a model field: \<open>str\<close>, \<open>int\<close>, \<open>float\<close> or \<open>date\<close>.\<close>

datatype ftype = TStr | TInt | TFloat | TDate

text \<open>
  What one call reads from outside the program: Fernet encryption under
  \<open>ENCRYPTION_KEY\<close> (decryption fails on a corrupt ciphertext), the JWT signing key,
  the \<open>web\<close> object of the client-secrets file (\<open>None\<close> when the file cannot be
  read), the conversions of Python's \<open>float\<close>, which is kept as its IEEE 754 bit
  pattern, the clock (\<open>datetime.now\<close> in microseconds, \<open>date.today\<close>) and the
  16 bytes \<open>os.urandom\<close> gives to \<open>uuid.uuid4\<close>. \<open>lax_value\<close> stands for the
  conversions of pydantic's lax mode that are not written out below: what pydantic makes
  of a value that is neither of the field's type nor its plain text (an integer written
  \<open>3.0\<close> or with blanks or underscores, a date given as a timestamp or as a datetime
  at midnight, an integral \<open>float\<close> for an \<open>int\<close>), \<open>None\<close> where it rejects.
\<close>

record env =
  fernet_encrypt :: "string \<Rightarrow> string"
  fernet_decrypt :: "string \<Rightarrow> string option"
  JWT_SECRET_KEY :: string
  client_secrets :: "(string, string) dict option"
  float_str :: "64 word \<Rightarrow> string"
  float_of_str :: "string \<Rightarrow> 64 word option"
  float_of_int :: "int \<Rightarrow> 64 word"
  lax_value :: "ftype \<Rightarrow> pyval \<Rightarrow> pyval option"
  now :: int
  today :: "nat \<times> nat \<times> nat"
  urandom :: "128 word"

definition parse_iso_date :: "string \<Rightarrow> pyval option" where
  "parse_iso_date s =
     (if length s = 10 \<and> s ! 4 = CHR ''-'' \<and> s ! 7 = CHR ''-'' then
        (case (parse_nat (take 4 s), parse_nat (take 2 (drop 5 s)), parse_nat (drop 8 s)) of
           (Some y, Some m, Some d) \<Rightarrow> (if valid_date y m d then Some (PyDate y m d) else None)
         | _ \<Rightarrow> None)
      else None)"

text \<open>\<open>str(v)\<close>, and the value \<open>model_dump(mode='json')\<close> gives for a field.\<close>

fun py_str :: "env \<Rightarrow> pyval \<Rightarrow> string" where
  "py_str en PyNone = ''None''"
| "py_str en (PyStr s) = s"
| "py_str en (PyInt i) = str_int i"
| "py_str en (PyFloat f) = float_str en f"
| "py_str en (PyDate y m d) = isoformat y m d"

fun to_json :: "pyval \<Rightarrow> pyval" where
  "to_json (PyDate y m d) = PyStr (isoformat y m d)"
| "to_json v = v"

section \<open>models.py\<close>

text \<open>
  \<open>uuid.uuid4()\<close> is 16 bytes of \<open>os.urandom\<close> with the variant and version bits
  set; \<open>.hex\<close> is its 32 lower-case hexadecimal digits, most significant first.
\<close>

definition uuid4 :: "128 word \<Rightarrow> 128 word" where
  "uuid4 r =
     (((r AND NOT (push_bit 48 0xc000)) OR push_bit 48 0x8000)
        AND NOT (push_bit 64 0xf000)) OR push_bit 76 4"

definition hex_digit :: "nat \<Rightarrow> char" where
  "hex_digit d = ''0123456789abcdef'' ! d"

definition uuid_hex :: "128 word \<Rightarrow> string" where
  "uuid_hex u = map (\<lambda>i. hex_digit (unat (drop_bit (4 * (31 - i)) u AND 15))) [0 ..< 32]"

definition gen_id :: "string \<Rightarrow> nat \<Rightarrow> 128 word \<Rightarrow> string" where
  "gen_id prefix n u = prefix @ ''-'' @ upper (take n (uuid_hex u))"

text \<open>
  A pydantic model is the list of its fields in declaration order, the fields of the
  base class first. A field has a type, may be \<open>Optional\<close>, and is required or has a
  default: a value, or one of the two default factories of the create models.
\<close>

datatype fdefault =
    Required
  | Default pyval
  | Factory_id string nat
  | Factory_today

record field =
  field_name :: string
  field_type :: ftype
  nullable :: bool
  field_default :: fdefault

type_synonym model = "field list"

definition req :: "string \<Rightarrow> ftype \<Rightarrow> field" where
  "req n t = \<lparr>field_name = n, field_type = t, nullable = False, field_default = Required\<rparr>"

definition opt :: "string \<Rightarrow> ftype \<Rightarrow> field" where
  "opt n t = \<lparr>field_name = n, field_type = t, nullable = True, field_default = Default PyNone\<rparr>"

definition dflt :: "string \<Rightarrow> ftype \<Rightarrow> pyval \<Rightarrow> field" where
  "dflt n t v = \<lparr>field_name = n, field_type = t, nullable = False, field_default = Default v\<rparr>"

definition factory :: "string \<Rightarrow> ftype \<Rightarrow> fdefault \<Rightarrow> field" where
  "factory n t f = \<lparr>field_name = n, field_type = t, nullable = False, field_default = f\<rparr>"

text \<open>
  Each update model of the source lists the fields of its base model, in the same order,
  every one \<open>Optional\<close> with default \<open>None\<close>.
\<close>

definition all_optional :: "model \<Rightarrow> model" where
  "all_optional fs = map (\<lambda>f. opt (field_name f) (field_type f)) fs"

definition AdmissionBase :: model where
  "AdmissionBase =
     [req ''student_name'' TStr, req ''date_of_birth'' TDate, req ''gender'' TStr,
      req ''contact_number'' TStr, req ''email'' TStr, req ''address'' TStr,
      req ''course_applied'' TStr, req ''department'' TStr, req ''admission_status'' TStr,
      req ''parent_guardian_name'' TStr, req ''parent_guardian_contact'' TStr,
      req ''nationality'' TStr, req ''category'' TStr, opt ''remarks'' TStr]"

definition AdmissionCreate :: model where
  "AdmissionCreate = AdmissionBase @
     [factory ''admission_id'' TStr (Factory_id ''ADM'' 6),
      factory ''admission_date'' TDate Factory_today]"

definition Admission :: model where
  "Admission = AdmissionBase @ [req ''admission_id'' TStr, req ''admission_date'' TDate]"

definition AdmissionUpdate :: model where
  "AdmissionUpdate = all_optional AdmissionBase"

definition BookBase :: model where
  "BookBase =
     [req ''title'' TStr, req ''author'' TStr, req ''genre'' TStr, req ''publisher'' TStr,
      req ''edition_year'' TStr, opt ''isbn'' TStr, req ''shelf_location'' TStr,
      dflt ''availability_status'' TStr (PyStr ''Available''), opt ''issued_to'' TStr,
      opt ''issue_date'' TDate, opt ''return_date'' TDate,
      dflt ''fine_rate'' TFloat (PyFloat 0), dflt ''fine_accrued'' TFloat (PyFloat 0)]"

definition BookCreate :: model where
  "BookCreate = BookBase @ [factory ''book_id'' TStr (Factory_id ''BK'' 8)]"

definition Book :: model where
  "Book = BookBase @ [req ''book_id'' TStr]"

definition BookUpdate :: model where
  "BookUpdate = all_optional BookBase"

definition HostelOccupancyBase :: model where
  "HostelOccupancyBase =
     [req ''hostel_id'' TStr, req ''room_type'' TStr, req ''fee_status'' TStr,
      req ''room_number'' TStr, req ''occupied_beds'' TInt, req ''vacant_beds'' TInt,
      req ''student_id'' TStr, req ''student_name'' TStr, req ''check_in_date'' TDate,
      opt ''check_out_date'' TDate, req ''status'' TStr]"

definition HostelOccupancyCreate :: model where
  "HostelOccupancyCreate =
     HostelOccupancyBase @ [factory ''occupancy_id'' TStr (Factory_id ''HOC'' 6)]"

definition HostelOccupancy :: model where
  "HostelOccupancy = HostelOccupancyBase @ [req ''occupancy_id'' TStr]"

definition HostelOccupancyUpdate :: model where
  "HostelOccupancyUpdate = all_optional HostelOccupancyBase"

definition FeeReceiptBase :: model where
  "FeeReceiptBase =
     [req ''student_id'' TStr, req ''student_name'' TStr, req ''course'' TStr,
      req ''semester_year'' TStr, req ''fee_type'' TStr, req ''amount'' TFloat,
      req ''payment_mode'' TStr, opt ''transaction_id'' TStr, req ''status'' TStr,
      opt ''remarks'' TStr]"

definition FeeReceiptCreate :: model where
  "FeeReceiptCreate = FeeReceiptBase @
     [factory ''receipt_id'' TStr (Factory_id ''RCPT'' 8),
      factory ''payment_date'' TDate Factory_today]"

definition FeeReceipt :: model where
  "FeeReceipt = FeeReceiptBase @ [req ''receipt_id'' TStr, req ''payment_date'' TDate]"

definition FeeReceiptUpdate :: model where
  "FeeReceiptUpdate = all_optional FeeReceiptBase"

definition AppUserBase :: model where
  "AppUserBase = [req ''username'' TStr, req ''role'' TStr, req ''password'' TStr]"

definition AppUserCreate :: model where
  "AppUserCreate = AppUserBase @ [factory ''user_id'' TStr (Factory_id ''USR'' 6)]"

definition AppUser :: model where
  "AppUser = AppUserBase @ [req ''user_id'' TStr]"

definition AppUserUpdate :: model where
  "AppUserUpdate = all_optional AppUserBase"

text \<open>
  A model instance: the values of its fields in field order, and the set of names of the
  fields that were given explicitly (pydantic's \<open>model_fields_set\<close>). Validation accepts a
  value of the field's type, \<open>None\<close> for an \<open>Optional\<close> field and for no other, an
  \<open>int\<close> for a \<open>float\<close>, and a string that is the plain text of the field's type:
  a decimal integer, an ISO date \<open>YYYY-MM-DD\<close>, a float. Every other value is left to
  \<open>lax_value\<close>, the further conversions of pydantic's lax mode.
\<close>

record model_instance =
  inst_dict :: "(string, pyval) dict"
  fields_set :: "string set"

fun validate_value :: "env \<Rightarrow> ftype \<Rightarrow> bool \<Rightarrow> pyval \<Rightarrow> pyval option" where
  "validate_value en t nl PyNone = (if nl then Some PyNone else None)"
| "validate_value en TStr nl (PyStr s) = Some (PyStr s)"
| "validate_value en TInt nl (PyInt i) = Some (PyInt i)"
| "validate_value en TInt nl (PyStr s) =
     (case parse_int s of Some i \<Rightarrow> Some (PyInt i) | None \<Rightarrow> lax_value en TInt (PyStr s))"
| "validate_value en TFloat nl (PyFloat f) = Some (PyFloat f)"
| "validate_value en TFloat nl (PyInt i) = Some (PyFloat (float_of_int en i))"
| "validate_value en TFloat nl (PyStr s) = map_option PyFloat (float_of_str en s)"
| "validate_value en TDate nl (PyDate y m d) = (if valid_date y m d then Some (PyDate y m d) else None)"
| "validate_value en TDate nl (PyStr s) =
     (case parse_iso_date s of Some d \<Rightarrow> Some d | None \<Rightarrow> lax_value en TDate (PyStr s))"
| "validate_value en t nl v = lax_value en t v"

definition default_value :: "env \<Rightarrow> fdefault \<Rightarrow> pyval option" where
  "default_value en d =
     (case d of
        Required \<Rightarrow> None
      | Default v \<Rightarrow> Some v
      | Factory_id prefix n \<Rightarrow> Some (PyStr (gen_id prefix n (uuid4 (urandom en))))
      | Factory_today \<Rightarrow> (case today en of (y, m, d) \<Rightarrow> Some (PyDate y m d)))"

definition field_value :: "env \<Rightarrow> (string, pyval) dict \<Rightarrow> field \<Rightarrow> pyval option" where
  "field_value en kwargs f =
     (case map_of kwargs (field_name f) of
        Some v \<Rightarrow> validate_value en (field_type f) (nullable f) v
      | None \<Rightarrow> default_value en (field_default f))"

fun validate_fields :: "env \<Rightarrow> (string, pyval) dict \<Rightarrow> model \<Rightarrow> (string, pyval) dict option" where
  "validate_fields en kwargs [] = Some []"
| "validate_fields en kwargs (f # fs) =
     (case field_value en kwargs f of
        None \<Rightarrow> None
      | Some v \<Rightarrow> map_option (\<lambda>rest. (field_name f, v) # rest) (validate_fields en kwargs fs))"

definition instantiate :: "env \<Rightarrow> model \<Rightarrow> (string, pyval) dict \<Rightarrow> exn + model_instance" where
  "instantiate en m kwargs =
     (case validate_fields en kwargs m of
        None \<Rightarrow> Inl ValidationError
      | Some d \<Rightarrow> Inr \<lparr>inst_dict = d,
                       fields_set = set (filter (\<lambda>k. k \<in> set (map fst kwargs)) (map field_name m))\<rparr>)"

definition model_dump_json :: "model_instance \<Rightarrow> (string, pyval) dict" where
  "model_dump_json i = map (\<lambda>(k, v). (k, to_json v)) (inst_dict i)"

definition model_dump_exclude_unset :: "model_instance \<Rightarrow> (string, pyval) dict" where
  "model_dump_exclude_unset i = filter (\<lambda>(k, v). k \<in> fields_set i) (inst_dict i)"

definition model_copy :: "model_instance \<Rightarrow> (string, pyval) dict \<Rightarrow> model_instance" where
  "model_copy i upd =
     \<lparr>inst_dict = dict_update (inst_dict i) upd,
      fields_set = fields_set i \<union> set (map fst upd)\<rparr>"

section \<open>sheets_api.py\<close>

definition SHEET_STRUCTURE :: "(string, string list) dict" where
  "SHEET_STRUCTURE =
     [(''Admissions'',
        [''Admission ID'', ''Student Name'', ''Date of Birth'', ''Gender'', ''Contact Number'',
         ''Email'', ''Address'', ''Course Applied'', ''Department'', ''Admission Date'',
         ''Admission Status'', ''Parent/Guardian Name'', ''Parent/Guardian Contact'',
         ''Nationality'', ''Category'', ''Remarks'']),
      (''Library'',
        [''Book ID'', ''Title'', ''Author'', ''Genre'', ''Publisher'', ''Edition/Year'', ''ISBN'',
         ''Shelf Location'', ''Availability Status'', ''Issued To'', ''Issue Date'',
         ''Return Date'', ''Fine Rate'', ''Fine Accrued'']),
      (''Hostel'',
        [''Occupancy ID'', ''Hostel ID'', ''Room Type'', ''Fee Status'', ''Room Number'',
         ''Occupied Beds'', ''Vacant Beds'', ''Student ID'', ''Student Name'',
         ''Check IN Date'', ''Check Out Date'', ''Status'']),
      (''Fees'',
        [''Receipt ID'', ''Student ID'', ''Student Name'', ''Course'', ''Semester/Year'',
         ''Fee Type'', ''Amount'', ''Payment Mode'', ''Transaction ID'', ''Payment Date'',
         ''Status'', ''Remarks'']),
      (''Users'',
        [''User ID'', ''Username'', ''Password'', ''Role''])]"

record credentials =
  refresh_token :: string
  token_uri :: string
  client_id :: string
  client_secret :: string

definition get_google_credentials :: "env \<Rightarrow> user_row \<Rightarrow> exn + credentials" where
  "get_google_credentials en user_data =
     (case fernet_decrypt en (encrypted_refresh_token user_data) of
        None \<Rightarrow> Inl InvalidToken
      | Some decrypted_refresh_token \<Rightarrow>
          (case client_secrets en of
             None \<Rightarrow> Inl OSError
           | Some web \<Rightarrow>
               (case (map_of web ''token_uri'', map_of web ''client_id'', map_of web ''client_secret'') of
                  (Some u, Some i, Some s) \<Rightarrow>
                    Inr \<lparr>refresh_token = decrypted_refresh_token, token_uri = u,
                         client_id = i, client_secret = s\<rparr>
                | _ \<Rightarrow> Inl KeyError)))"

definition create_spreadsheet :: "credentials \<Rightarrow> string \<Rightarrow> world \<Rightarrow> (exn + string) \<times> world" where
  "create_spreadsheet creds t w = spreadsheets_create t w"

definition setup_erp_sheets :: "credentials \<Rightarrow> string \<Rightarrow> world \<Rightarrow> (exn + unit) \<times> world" where
  "setup_erp_sheets creds sid w =
     (let reqs = map AddSheet (map fst SHEET_STRUCTURE) @ [DeleteSheet 0] in
      case spreadsheets_batch_update sid reqs w of
        (Inl e, w1) \<Rightarrow> (Inl e, w1)
      | (Inr u, w1) \<Rightarrow>
          (let data_to_write = map (\<lambda>(sheet_name, headers). (sheet_name, [headers])) SHEET_STRUCTURE
           in values_batch_update sid data_to_write w1))"

definition append_row ::
  "credentials \<Rightarrow> string \<Rightarrow> string \<Rightarrow> string list \<Rightarrow> world \<Rightarrow> (exn + unit) \<times> world" where
  "append_row creds sid sheet_name vals w = values_append sid sheet_name vals w"

definition rows_as_records :: "grid \<Rightarrow> (string, string) dict list" where
  "rows_as_records vals =
     (case vals of
        [] \<Rightarrow> []
      | headers # rest \<Rightarrow>
          (if length vals < 2 then []
           else map (\<lambda>row. py_dict (zip headers (row @ replicate (length headers - length row) []))) rest))"

definition get_all_rows ::
  "credentials \<Rightarrow> string \<Rightarrow> string \<Rightarrow> world \<Rightarrow> (exn + (string, string) dict list) \<times> world" where
  "get_all_rows creds sid sheet_name w =
     (case values_get sid sheet_name w of
        (Inl e, w1) \<Rightarrow> (Inl e, w1)
      | (Inr vals, w1) \<Rightarrow> (Inr (rows_as_records vals), w1))"

text \<open>\<open>headers.index(x)\<close>, and the loop of \<open>find_row_index\<close> over \<open>enumerate(values)\<close>.\<close>

fun list_index :: "'a \<Rightarrow> 'a list \<Rightarrow> nat option" where
  "list_index x [] = None"
| "list_index x (y # ys) = (if y = x then Some 0 else map_option Suc (list_index x ys))"

fun scan_rows :: "nat \<Rightarrow> string \<Rightarrow> nat \<Rightarrow> grid \<Rightarrow> nat option" where
  "scan_rows col_index search_value i [] = None"
| "scan_rows col_index search_value i (row # rows) =
     (if length row > col_index \<and> row ! col_index = search_value then Some (i + 1)
      else scan_rows col_index search_value (Suc i) rows)"

definition search_values :: "grid \<Rightarrow> string \<Rightarrow> string \<Rightarrow> exn + nat" where
  "search_values vals search_value search_column_name =
     (case vals of
        [] \<Rightarrow> Inl ValueError
      | headers # rest \<Rightarrow>
          (case list_index search_column_name headers of
             None \<Rightarrow> Inl ValueError
           | Some col_index \<Rightarrow>
               (case scan_rows col_index search_value 0 vals of
                  Some i \<Rightarrow> Inr i
                | None \<Rightarrow> Inl ValueError)))"

definition find_row_index ::
  "credentials \<Rightarrow> string \<Rightarrow> string \<Rightarrow> string \<Rightarrow> string \<Rightarrow> world \<Rightarrow> (exn + nat) \<times> world" where
  "find_row_index creds sid sheet_name search_value search_column_name w =
     (case values_get sid sheet_name w of
        (Inl e, w1) \<Rightarrow> (Inl e, w1)
      | (Inr vals, w1) \<Rightarrow> (search_values vals search_value search_column_name, w1))"

definition update_row ::
  "credentials \<Rightarrow> string \<Rightarrow> string \<Rightarrow> string \<Rightarrow> string \<Rightarrow> string list \<Rightarrow> world
     \<Rightarrow> (exn + unit) \<times> world" where
  "update_row creds sid sheet_name search_value search_column_name new_values w =
     (case find_row_index creds sid sheet_name search_value search_column_name w of
        (Inl e, w1) \<Rightarrow> (Inl e, w1)
      | (Inr row_index, w1) \<Rightarrow> values_update sid sheet_name row_index new_values w1)"

definition delete_row ::
  "credentials \<Rightarrow> string \<Rightarrow> string \<Rightarrow> string \<Rightarrow> string \<Rightarrow> world \<Rightarrow> (exn + unit) \<times> world" where
  "delete_row creds sid sheet_name search_value search_column_name w =
     (case spreadsheets_get sid w of
        (Inl e, w1) \<Rightarrow> (Inl e, w1)
      | (Inr sheets, w1) \<Rightarrow>
          (case find (\<lambda>s. snd s = sheet_name) sheets of
             None \<Rightarrow> (Inl ValueError, w1)
           | Some s \<Rightarrow>
               (case find_row_index creds sid sheet_name search_value search_column_name w1 of
                  (Inl e, w2) \<Rightarrow> (Inl e, w2)
                | (Inr row_index, w2) \<Rightarrow>
                    spreadsheets_batch_update sid
                      [DeleteDimension (fst s) (row_index - 1) row_index] w2)))"

section \<open>main.py\<close>

text \<open>Python truthiness of a column value, \<open>isinstance(v, str)\<close> and \<open>len(v)\<close>.\<close>

fun truthy :: "dbval \<Rightarrow> bool" where
  "truthy Null = False"
| "truthy (Text s) = (s \<noteq> [])"
| "truthy (Blob b) = (b \<noteq> [])"

fun is_str :: "dbval \<Rightarrow> bool" where
  "is_str (Text s) = True"
| "is_str v = False"

fun db_len :: "dbval \<Rightarrow> nat" where
  "db_len (Text s) = length s"
| "db_len (Blob b) = length b"
| "db_len Null = 0"

text \<open>
  \<open>current_user\<close> is the row that the dependency \<open>get_current_user\<close> loaded.
  \<open>get_spreadsheet_id\<close> reads the row again by its email; on a missing row
  \<open>user_data\<close> is \<open>None\<close> and \<open>user_data.get\<close> raises.
\<close>

definition get_spreadsheet_id :: "user_row \<Rightarrow> world \<Rightarrow> exn + string" where
  "get_spreadsheet_id current_user w =
     (case get_user_by_email (email current_user) (users w) of
        None \<Rightarrow> Inl AttributeError
      | Some user_data \<Rightarrow>
          (let sid = spreadsheet_id user_data in
           if \<not> truthy sid \<or> \<not> is_str sid \<or> db_len sid < 30 then Inl (HTTPException 400)
           else (case sid of Text s \<Rightarrow> Inr s | _ \<Rightarrow> Inl (HTTPException 400))))"

definition normalize :: "string \<Rightarrow> string" where
  "normalize key = replace_char (CHR ''/'') (CHR ''_'') (replace_char (CHR '' '') (CHR ''_'') (lower key))"

definition map_row_to_model :: "env \<Rightarrow> (string, string) dict \<Rightarrow> model \<Rightarrow> exn + model_instance" where
  "map_row_to_model en row m =
     (let mapped_data = py_dict (map (\<lambda>(key, v). (normalize key, PyStr v)) row)
      in instantiate en m mapped_data)"

definition map_model_to_row :: "env \<Rightarrow> model_instance \<Rightarrow> string \<Rightarrow> exn + string list" where
  "map_model_to_row en model_instance sheet_name =
     (case map_of SHEET_STRUCTURE sheet_name of
        None \<Rightarrow> Inl KeyError
      | Some headers \<Rightarrow>
          (let data_dict = model_dump_json model_instance
           in Inr (map (\<lambda>header. py_str en (dict_get data_dict (normalize header) (PyStr []))) headers)))"

text \<open>
  \<open>login_google\<close> stores the state token. \<open>auth_callback\<close>: \<open>idp\<close> is what the
  identity provider answers to the code exchange and the user-info request (\<open>None\<close>
  when one of them raises). Every exception inside the \<open>try\<close>, the
  \<open>HTTPException\<close>s with status 400 too, is caught and raised again with status 500.
  The result is the value of the \<open>access_token\<close> cookie.
\<close>

record idp_answer =
  user_email :: "string option"
  user_name :: "string option"
  idp_refresh_token :: "string option"

definition login_google :: "string \<Rightarrow> world \<Rightarrow> world" where
  "login_google state w = w\<lparr>session_storage := AList.update ''state'' state (session_storage w)\<rparr>"

definition auth_callback ::
  "env \<Rightarrow> string option \<Rightarrow> idp_answer option \<Rightarrow> world \<Rightarrow> (exn + jwt) \<times> world" where
  "auth_callback en state_from_google idp w =
     (let saved_state = map_of (session_storage w) ''state'';
          w1 = w\<lparr>session_storage := AList.delete ''state'' (session_storage w)\<rparr>
      in if saved_state = None \<or> saved_state = Some [] \<or> saved_state \<noteq> state_from_google
         then (Inl (HTTPException 500), w1)
         else if client_secrets en = None then (Inl (HTTPException 500), w1)
         else (case idp of
                 None \<Rightarrow> (Inl (HTTPException 500), w1)
               | Some info \<Rightarrow>
                   (case (user_email info, idp_refresh_token info) of
                      (Some e, Some tok) \<Rightarrow>
                        (if e = [] \<or> tok = [] then (Inl (HTTPException 500), w1)
                         else (let encrypted_token = fernet_encrypt en tok in
                               case user_name info of
                                 None \<Rightarrow> (Inl (HTTPException 500), w1)
                               | Some n \<Rightarrow>
                                   (let w2 = w1\<lparr>users := save_or_update_user e n encrypted_token (users w1)\<rparr>;
                                        access_token = create_access_token (JWT_SECRET_KEY en) (now en)
                                                         [(''sub'', ClaimStr e)] None
                                    in (Inr access_token, w2))))
                    | _ \<Rightarrow> (Inl (HTTPException 500), w1))))"

record setup_answer =
  message :: string
  answer_spreadsheet_id :: dbval
  url :: "string option"

definition setup_sheet :: "env \<Rightarrow> user_row \<Rightarrow> world \<Rightarrow> (exn + setup_answer) \<times> world" where
  "setup_sheet en current_user w =
     (case get_user_by_email (email current_user) (users w) of
        None \<Rightarrow> (Inl AttributeError, w)
      | Some user_data \<Rightarrow>
          (if truthy (spreadsheet_id user_data)
           then (Inr \<lparr>message = ''Spreadsheet already set up.'',
                      answer_spreadsheet_id = spreadsheet_id user_data, url = None\<rparr>, w)
           else (case get_google_credentials en user_data of
                   Inl e \<Rightarrow> (Inl (HTTPException 500), w)
                 | Inr creds \<Rightarrow>
                     (case create_spreadsheet creds (''ERP Data - '' @ email user_data) w of
                        (Inl e, w1) \<Rightarrow> (Inl (HTTPException 500), w1)
                      | (Inr sid, w1) \<Rightarrow>
                          (let w2 = w1\<lparr>users := update_spreadsheet_id (email user_data) sid (users w1)\<rparr>
                           in case setup_erp_sheets creds sid w2 of
                                (Inl e, w3) \<Rightarrow> (Inl (HTTPException 500), w3)
                              | (Inr u, w3) \<Rightarrow>
                                  (Inr \<lparr>message = ''Successfully created and set up ERP spreadsheet!'',
                                        answer_spreadsheet_id = Text sid,
                                        url = Some (''https://docs.google.com/spreadsheets/d/'' @ sid)\<rparr>,
                                   w3))))))"

text \<open>
  The factory \<open>create_crud_endpoints\<close> is instantiated with a record kind: its three
  models, its sheet and the header of its identifier column.
\<close>

record kind =
  model :: model
  create_model :: model
  update_model :: model
  sheet_name :: string
  id_field :: string

definition add_record ::
  "env \<Rightarrow> kind \<Rightarrow> model_instance \<Rightarrow> user_row \<Rightarrow> world \<Rightarrow> (exn + model_instance) \<times> world" where
  "add_record en k data current_user w =
     (case get_spreadsheet_id current_user w of
        Inl e \<Rightarrow> (Inl e, w)
      | Inr sid \<Rightarrow>
          (case get_google_credentials en current_user of
             Inl e \<Rightarrow> (Inl e, w)
           | Inr creds \<Rightarrow>
               (case map_model_to_row en data (sheet_name k) of
                  Inl e \<Rightarrow> (Inl e, w)
                | Inr row_values \<Rightarrow>
                    (case append_row creds sid (sheet_name k) row_values w of
                       (Inl e, w1) \<Rightarrow> (Inl e, w1)
                     | (Inr u, w1) \<Rightarrow> (Inr data, w1)))))"

fun map_rows_to_models :: "env \<Rightarrow> (string, string) dict list \<Rightarrow> model \<Rightarrow> exn + model_instance list" where
  "map_rows_to_models en [] m = Inr []"
| "map_rows_to_models en (row # rows) m =
     (case map_row_to_model en row m of
        Inl e \<Rightarrow> Inl e
      | Inr i \<Rightarrow> (case map_rows_to_models en rows m of Inl e \<Rightarrow> Inl e | Inr is \<Rightarrow> Inr (i # is)))"

definition get_records ::
  "env \<Rightarrow> kind \<Rightarrow> user_row \<Rightarrow> world \<Rightarrow> (exn + model_instance list) \<times> world" where
  "get_records en k current_user w =
     (case get_spreadsheet_id current_user w of
        Inl e \<Rightarrow> (Inl e, w)
      | Inr sid \<Rightarrow>
          (case get_google_credentials en current_user of
             Inl e \<Rightarrow> (Inl e, w)
           | Inr creds \<Rightarrow>
               (case get_all_rows creds sid (sheet_name k) w of
                  (Inl e, w1) \<Rightarrow> (Inl e, w1)
                | (Inr rows, w1) \<Rightarrow> (map_rows_to_models en rows (model k), w1))))"

definition update_record ::
  "env \<Rightarrow> kind \<Rightarrow> string \<Rightarrow> model_instance \<Rightarrow> user_row \<Rightarrow> world
     \<Rightarrow> (exn + model_instance) \<times> world" where
  "update_record en k item_id data current_user w =
     (case get_spreadsheet_id current_user w of
        Inl e \<Rightarrow> (Inl e, w)
      | Inr sid \<Rightarrow>
          (case get_google_credentials en current_user of
             Inl e \<Rightarrow> (Inl e, w)
           | Inr creds \<Rightarrow>
               (case get_all_rows creds sid (sheet_name k) w of
                  (Inl e, w1) \<Rightarrow> (Inl e, w1)
                | (Inr rows, w1) \<Rightarrow>
                    (case find (\<lambda>r. map_of r (id_field k) = Some item_id) rows of
                       None \<Rightarrow> (Inl (HTTPException 404), w1)
                     | Some r \<Rightarrow>
                         (case map_row_to_model en r (model k) of
                            Inl e \<Rightarrow> (Inl e, w1)
                          | Inr existing_item \<Rightarrow>
                              (let updated_data = model_dump_exclude_unset data;
                                   updated_item = model_copy existing_item updated_data
                               in case map_model_to_row en updated_item (sheet_name k) of
                                    Inl e \<Rightarrow> (Inl e, w1)
                                  | Inr new_row_values \<Rightarrow>
                                      (case update_row creds sid (sheet_name k) item_id (id_field k)
                                              new_row_values w1 of
                                         (Inl e, w2) \<Rightarrow> (Inl e, w2)
                                       | (Inr u, w2) \<Rightarrow> (Inr updated_item, w2))))))))"

definition delete_record ::
  "env \<Rightarrow> kind \<Rightarrow> string \<Rightarrow> user_row \<Rightarrow> world \<Rightarrow> (exn + unit) \<times> world" where
  "delete_record en k item_id current_user w =
     (case get_spreadsheet_id current_user w of
        Inl e \<Rightarrow> (Inl e, w)
      | Inr sid \<Rightarrow>
          (case get_google_credentials en current_user of
             Inl e \<Rightarrow> (Inl e, w)
           | Inr creds \<Rightarrow>
               (case delete_row creds sid (sheet_name k) item_id (id_field k) w of
                  (Inl ValueError, w1) \<Rightarrow> (Inl (HTTPException 404), w1)
                | (Inl e, w1) \<Rightarrow> (Inl e, w1)
                | (Inr u, w1) \<Rightarrow> (Inr (), w1))))"

text \<open>
  FastAPI builds the body argument before it calls the endpoint: the create model or the
  update model is instantiated from the payload, and a payload that does not validate is
  answered with status 422.
\<close>

definition post_record ::
  "env \<Rightarrow> kind \<Rightarrow> (string, pyval) dict \<Rightarrow> user_row \<Rightarrow> world \<Rightarrow> (exn + model_instance) \<times> world" where
  "post_record en k payload current_user w =
     (case instantiate en (create_model k) payload of
        Inl e \<Rightarrow> (Inl (HTTPException 422), w)
      | Inr data \<Rightarrow> add_record en k data current_user w)"

definition put_record ::
  "env \<Rightarrow> kind \<Rightarrow> string \<Rightarrow> (string, pyval) dict \<Rightarrow> user_row \<Rightarrow> world
     \<Rightarrow> (exn + model_instance) \<times> world" where
  "put_record en k item_id payload current_user w =
     (case instantiate en (update_model k) payload of
        Inl e \<Rightarrow> (Inl (HTTPException 422), w)
      | Inr data \<Rightarrow> update_record en k item_id data current_user w)"

definition admissions :: kind where
  "admissions = \<lparr>model = Admission, create_model = AdmissionCreate, update_model = AdmissionUpdate,
                 sheet_name = ''Admissions'', id_field = ''Admission ID''\<rparr>"

definition library :: kind where
  "library = \<lparr>model = Book, create_model = BookCreate, update_model = BookUpdate,
              sheet_name = ''Library'', id_field = ''Book ID''\<rparr>"

definition hostel :: kind where
  "hostel = \<lparr>model = HostelOccupancy, create_model = HostelOccupancyCreate,
             update_model = HostelOccupancyUpdate,
             sheet_name = ''Hostel'', id_field = ''Occupancy ID''\<rparr>"

definition fees :: kind where
  "fees = \<lparr>model = FeeReceipt, create_model = FeeReceiptCreate, update_model = FeeReceiptUpdate,
           sheet_name = ''Fees'', id_field = ''Receipt ID''\<rparr>"

definition app_users :: kind where
  "app_users = \<lparr>model = AppUser, create_model = AppUserCreate, update_model = AppUserUpdate,
                sheet_name = ''Users'', id_field = ''User ID''\<rparr>"

definition kinds :: "kind list" where
  "kinds = [admissions, library, hostel, fees, app_users]"

section \<open>Example inputs\<close>

text \<open>
  A sample environment and a sample provisioned user, for evaluating the operations on
  concrete inputs. The cipher of the sample environment prefixes the plaintext, and its
  \<open>lax_value\<close> converts nothing: the examples use it only on the text \<open>None\<close>,
  which pydantic converts to no date.
\<close>

definition example_env :: env where
  "example_env =
     \<lparr>fernet_encrypt = (\<lambda>s. ''enc:'' @ s),
      fernet_decrypt = (\<lambda>s. if take 4 s = ''enc:'' then Some (drop 4 s) else None),
      JWT_SECRET_KEY = ''secret'',
      client_secrets = Some [(''token_uri'', ''https://oauth2.googleapis.com/token''),
                             (''client_id'', ''client''), (''client_secret'', ''cs'')],
      float_str = (\<lambda>f. ''0.0''),
      float_of_str = (\<lambda>s. if s = ''0.0'' then Some 0 else None),
      float_of_int = (\<lambda>i. 0),
      lax_value = (\<lambda>t v. None),
      now = 0,
      today = (2024, 5, 17),
      urandom = 0\<rparr>"

definition example_sid :: string where
  "example_sid = ''1BxiMVs0XRA5nFMdKvBdBZjgmUUqptlbs74OgvE2upms''"

definition example_user :: user_row where
  "example_user =
     \<lparr>email = ''head@school.example'', name = ''Head'', encrypted_refresh_token = ''enc:refresh'',
      spreadsheet_id = Text example_sid\<rparr>"

definition example_creds :: credentials where
  "example_creds =
     \<lparr>refresh_token = ''refresh'', token_uri = ''https://oauth2.googleapis.com/token'',
      client_id = ''client'', client_secret = ''cs''\<rparr>"

definition users_header :: "string list" where
  "users_header = [''User ID'', ''Username'', ''Password'', ''Role'']"

definition example_world :: world where
  "example_world =
     \<lparr>users = [example_user],
      session_storage = [(''state'', ''xyz'')],
      drive = [example_sid \<mapsto>
                 [\<lparr>sheetId = 5, title = ''Users'',
                   cells = [users_header, [''USR-00AA11'', ''ann'', ''pw'', ''admin'']]\<rparr>]],
      requests = [],
      faults = [],
      remote_ids = []\<rparr>"

definition new_user :: user_row where
  "new_user = example_user\<lparr>spreadsheet_id := Null\<rparr>"

definition fresh_world :: world where
  "fresh_world =
     \<lparr>users = [new_user], session_storage = [], drive = Map.empty, requests = [],
      faults = [], remote_ids = [example_sid]\<rparr>"

definition faulty_world :: world where
  "faulty_world = fresh_world\<lparr>faults := [False, True]\<rparr>"

text \<open>The requests of the header-initialization step \<open>setup_erp_sheets\<close> on a container.\<close>

fun header_request :: "string \<Rightarrow> api_call \<Rightarrow> bool" where
  "header_request sid (SpreadsheetsBatchUpdate sid' reqs) = (sid' = sid)"
| "header_request sid (ValuesBatchUpdate sid' data) = (sid' = sid)"
| "header_request sid c = False"

definition second_env :: env where
  "second_env = example_env\<lparr>urandom := 1\<rparr>"

definition user_payload :: "(string, pyval) dict" where
  "user_payload = [(''username'', PyStr ''bob''), (''role'', PyStr ''clerk''), (''password'', PyStr ''pw2'')]"

text \<open>
  The identifier field of each create model with the prefix and the number of
  hexadecimal digits of its default factory.
\<close>

definition id_factories :: "(kind \<times> string \<times> string \<times> nat) list" where
  "id_factories =
     [(admissions, ''admission_id'', ''ADM'', 6), (library, ''book_id'', ''BK'', 8),
      (hostel, ''occupancy_id'', ''HOC'', 6), (fees, ''receipt_id'', ''RCPT'', 8),
      (app_users, ''user_id'', ''USR'', 6)]"

definition created_user :: model_instance where
  "created_user =
     \<lparr>inst_dict = [(''username'', PyStr ''bob''), (''role'', PyStr ''clerk''),
                   (''password'', PyStr ''pw2''), (''user_id'', PyStr ''USR-000000'')],
      fields_set = set [''username'', ''role'', ''password'']\<rparr>"

text \<open>
  The round trip of the mapper for a record kind: the instance is mapped to a row with
  \<open>map_model_to_row\<close>, the row is keyed by the headers of the sheet as
  \<open>get_all_rows\<close> does it, and mapped back with \<open>map_row_to_model\<close>.
\<close>

definition round_trip :: "env \<Rightarrow> kind \<Rightarrow> model_instance \<Rightarrow> exn + model_instance" where
  "round_trip en k data =
     (case map_model_to_row en data (sheet_name k) of
        Inl e \<Rightarrow> Inl e
      | Inr row \<Rightarrow>
          (case map_of SHEET_STRUCTURE (sheet_name k) of
             None \<Rightarrow> Inl KeyError
           | Some headers \<Rightarrow> map_row_to_model en (py_dict (zip headers row)) (model k)))"

definition admission_payload :: "(string, pyval) dict" where
  "admission_payload =
     [(''student_name'', PyStr ''Ann Lee''), (''date_of_birth'', PyStr ''2010-03-04''),
      (''gender'', PyStr ''F''), (''contact_number'', PyStr ''555-0100''),
      (''email'', PyStr ''ann@school.example''), (''address'', PyStr ''1 Main St''),
      (''course_applied'', PyStr ''Physics''), (''department'', PyStr ''Science''),
      (''admission_status'', PyStr ''Pending''), (''parent_guardian_name'', PyStr ''Bo Lee''),
      (''parent_guardian_contact'', PyStr ''555-0101''), (''nationality'', PyStr ''IN''),
      (''category'', PyStr ''General'')]"

definition example_admission :: model_instance where
  "example_admission =
     \<lparr>inst_dict =
        [(''student_name'', PyStr ''Ann Lee''), (''date_of_birth'', PyDate 2010 3 4),
         (''gender'', PyStr ''F''), (''contact_number'', PyStr ''555-0100''),
         (''email'', PyStr ''ann@school.example''), (''address'', PyStr ''1 Main St''),
         (''course_applied'', PyStr ''Physics''), (''department'', PyStr ''Science''),
         (''admission_status'', PyStr ''Pending''), (''parent_guardian_name'', PyStr ''Bo Lee''),
         (''parent_guardian_contact'', PyStr ''555-0101''), (''nationality'', PyStr ''IN''),
         (''category'', PyStr ''General''), (''remarks'', PyNone),
         (''admission_id'', PyStr ''ADM-000000''), (''admission_date'', PyDate 2024 5 17)],
      fields_set = set (map fst admission_payload)\<rparr>"

definition returned_admission :: model_instance where
  "returned_admission =
     \<lparr>inst_dict =
        [(''student_name'', PyStr ''Ann Lee''), (''date_of_birth'', PyDate 2010 3 4),
         (''gender'', PyStr ''F''), (''contact_number'', PyStr ''555-0100''),
         (''email'', PyStr ''ann@school.example''), (''address'', PyStr ''1 Main St''),
         (''course_applied'', PyStr ''Physics''), (''department'', PyStr ''Science''),
         (''admission_status'', PyStr ''Pending''), (''parent_guardian_name'', PyStr ''Bo Lee''),
         (''parent_guardian_contact'', PyStr ''555-0101''), (''nationality'', PyStr ''IN''),
         (''category'', PyStr ''General''), (''remarks'', PyStr ''None''),
         (''admission_id'', PyStr ''ADM-000000''), (''admission_date'', PyDate 2024 5 17)],
      fields_set = set (map field_name Admission)\<rparr>"

definition book_payload :: "(string, pyval) dict" where
  "book_payload =
     [(''title'', PyStr ''Optics''), (''author'', PyStr ''I. Newton''), (''genre'', PyStr ''Science''),
      (''publisher'', PyStr ''Royal Society''), (''edition_year'', PyStr ''4/1730''),
      (''shelf_location'', PyStr ''A3'')]"

definition example_book :: model_instance where
  "example_book =
     \<lparr>inst_dict =
        [(''title'', PyStr ''Optics''), (''author'', PyStr ''I. Newton''), (''genre'', PyStr ''Science''),
         (''publisher'', PyStr ''Royal Society''), (''edition_year'', PyStr ''4/1730''),
         (''isbn'', PyNone), (''shelf_location'', PyStr ''A3''),
         (''availability_status'', PyStr ''Available''), (''issued_to'', PyNone),
         (''issue_date'', PyNone), (''return_date'', PyNone),
         (''fine_rate'', PyFloat 0), (''fine_accrued'', PyFloat 0),
         (''book_id'', PyStr ''BK-00000000'')],
      fields_set = set (map fst book_payload)\<rparr>"

definition existing_user :: model_instance where
  "existing_user =
     \<lparr>inst_dict = [(''username'', PyStr ''ann''), (''role'', PyStr ''admin''),
                   (''password'', PyStr ''pw''), (''user_id'', PyStr ''USR-00AA11'')],
      fields_set = set [''username'', ''role'', ''password'', ''user_id'']\<rparr>"

definition role_patch :: model_instance where
  "role_patch =
     \<lparr>inst_dict = [(''username'', PyNone), (''role'', PyStr ''teacher''), (''password'', PyNone)],
      fields_set = {''role''}\<rparr>"

text \<open>
  A provisioned container whose sheet \<open>Library\<close> holds its header row only, and the
  row that \<open>add_record\<close> appends to it for \<open>example_book\<close>.
\<close>

definition library_header :: "string list" where
  "library_header =
     [''Book ID'', ''Title'', ''Author'', ''Genre'', ''Publisher'', ''Edition/Year'', ''ISBN'',
      ''Shelf Location'', ''Availability Status'', ''Issued To'', ''Issue Date'',
      ''Return Date'', ''Fine Rate'', ''Fine Accrued'']"

definition library_world :: world where
  "library_world =
     example_world\<lparr>drive := [example_sid \<mapsto>
        [\<lparr>sheetId = 2, title = ''Library'', cells = [library_header]\<rparr>]]\<rparr>"

definition stored_book_row :: "string list" where
  "stored_book_row =
     [''BK-00000000'', ''Optics'', ''I. Newton'', ''Science'', ''Royal Society'', ''4/1730'', ''None'',
      ''A3'', ''Available'', ''None'', ''None'', ''None'', ''0.0'', ''0.0'']"

section \<open>General facts about lists, dicts and the spreadsheet service\<close>

lemma find_append_if:
  "find P (xs @ ys) = (case find P xs of None \<Rightarrow> find P ys | Some x \<Rightarrow> Some x)"
  by (induction xs) auto

lemma find_map_keep:
  "(\<And>x. P (f x) = P x) \<Longrightarrow> find P (map f xs) = map_option f (find P xs)"
  by (induction xs) auto

lemma issue_users [simp]: "users (snd (issue c w)) = users w"
  by (simp add: issue_def split: list.splits)

lemma issue_drive [simp]: "drive (snd (issue c w)) = drive w"
  by (simp add: issue_def split: list.splits)

lemma issue_requests [simp]: "requests (snd (issue c w)) = requests w @ [c]"
  by (simp add: issue_def split: list.splits)

lemma issue_no_faults:
  "faults w = [] \<Longrightarrow> issue c w = (True, w\<lparr>requests := requests w @ [c]\<rparr>)"
  by (simp add: issue_def)

lemma users_spreadsheets_create [simp]: "users (snd (spreadsheets_create t w)) = users w"
proof (cases "issue (SpreadsheetsCreate t) w")
  case (Pair ok w1)
  then have "users w1 = users w" using issue_users [of "SpreadsheetsCreate t" w] by simp
  with Pair show ?thesis by (simp add: spreadsheets_create_def split: list.splits)
qed

lemma users_spreadsheets_get [simp]: "users (snd (spreadsheets_get sid w)) = users w"
proof (cases "issue (SpreadsheetsGet sid) w")
  case (Pair ok w1)
  then have "users w1 = users w" using issue_users [of "SpreadsheetsGet sid" w] by simp
  with Pair show ?thesis by (simp add: spreadsheets_get_def split: option.splits)
qed

lemma users_spreadsheets_batch_update [simp]:
  "users (snd (spreadsheets_batch_update sid reqs w)) = users w"
proof (cases "issue (SpreadsheetsBatchUpdate sid reqs) w")
  case (Pair ok w1)
  then have "users w1 = users w" using issue_users [of "SpreadsheetsBatchUpdate sid reqs" w] by simp
  with Pair show ?thesis by (simp add: spreadsheets_batch_update_def split: option.splits)
qed

lemma users_values_batch_update [simp]:
  "users (snd (values_batch_update sid data w)) = users w"
proof (cases "issue (ValuesBatchUpdate sid data) w")
  case (Pair ok w1)
  then have "users w1 = users w" using issue_users [of "ValuesBatchUpdate sid data" w] by simp
  with Pair show ?thesis by (simp add: values_batch_update_def split: option.splits)
qed

lemma users_values_append [simp]: "users (snd (values_append sid t row w)) = users w"
proof (cases "issue (ValuesAppend sid t row) w")
  case (Pair ok w1)
  then have "users w1 = users w" using issue_users [of "ValuesAppend sid t row" w] by simp
  with Pair show ?thesis by (simp add: values_append_def split: option.splits)
qed

lemma users_values_get [simp]: "users (snd (values_get sid t w)) = users w"
proof (cases "issue (ValuesGet sid t) w")
  case (Pair ok w1)
  then have "users w1 = users w" using issue_users [of "ValuesGet sid t" w] by simp
  with Pair show ?thesis by (simp add: values_get_def split: option.splits)
qed

lemma users_values_update [simp]: "users (snd (values_update sid t i row w)) = users w"
proof (cases "issue (ValuesUpdate sid t i row) w")
  case (Pair ok w1)
  then have "users w1 = users w" using issue_users [of "ValuesUpdate sid t i row" w] by simp
  with Pair show ?thesis by (simp add: values_update_def split: option.splits)
qed

lemma users_find_row_index [simp]:
  "users (snd (find_row_index creds sid t v c w)) = users w"
proof (cases "values_get sid t w")
  case (Pair r w1)
  then have "users w1 = users w" using users_values_get [of sid t w] by simp
  with Pair show ?thesis by (simp add: find_row_index_def split: sum.splits)
qed

lemma users_get_all_rows [simp]: "users (snd (get_all_rows creds sid t w)) = users w"
proof (cases "values_get sid t w")
  case (Pair r w1)
  then have "users w1 = users w" using users_values_get [of sid t w] by simp
  with Pair show ?thesis by (simp add: get_all_rows_def split: sum.splits)
qed

lemma users_update_row [simp]: "users (snd (update_row creds sid t v c new w)) = users w"
proof (cases "find_row_index creds sid t v c w")
  case (Pair r w1)
  then have "users w1 = users w" using users_find_row_index [of creds sid t v c w] by simp
  with Pair show ?thesis by (simp add: update_row_def split: sum.splits)
qed

lemma users_delete_row [simp]: "users (snd (delete_row creds sid t v c w)) = users w"
proof (cases "spreadsheets_get sid w")
  case (Pair r w1)
  then have u1: "users w1 = users w" using users_spreadsheets_get [of sid w] by simp
  show ?thesis
  proof (cases r)
    case (Inl e)
    with Pair u1 show ?thesis by (simp add: delete_row_def)
  next
    case (Inr sheets)
    show ?thesis
    proof (cases "find (\<lambda>s. snd s = t) sheets")
      case None
      with Pair Inr u1 show ?thesis by (simp add: delete_row_def)
    next
      case (Some s)
      obtain r2 w2 where f: "find_row_index creds sid t v c w1 = (r2, w2)"
        by (cases "find_row_index creds sid t v c w1")
      then have u2: "users w2 = users w" using users_find_row_index [of creds sid t v c w1] u1 by simp
      show ?thesis using Pair Inr Some f u2
        by (cases r2) (simp_all add: delete_row_def)
    qed
  qed
qed

lemma users_setup_erp_sheets [simp]: "users (snd (setup_erp_sheets creds sid w)) = users w"
proof -
  let ?reqs = "map AddSheet (map fst SHEET_STRUCTURE) @ [DeleteSheet 0]"
  obtain r w1 where b: "spreadsheets_batch_update sid ?reqs w = (r, w1)"
    by (cases "spreadsheets_batch_update sid ?reqs w")
  then have "users w1 = users w" using users_spreadsheets_batch_update [of sid ?reqs w] by simp
  with b show ?thesis by (cases r) (simp_all add: setup_erp_sheets_def)
qed

lemma users_add_record: "users (snd (add_record en k data cu w)) = users w"
proof -
  have "users (snd (append_row creds sid t row w)) = users w" for creds sid t row
    by (simp add: append_row_def)
  then show ?thesis
    by (auto simp: add_record_def split: sum.splits prod.splits) (metis snd_conv)+
qed

lemma users_get_records: "users (snd (get_records en k cu w)) = users w"
proof -
  have a: "get_all_rows creds sid t w = (r, w1) \<Longrightarrow> users w1 = users w" for creds sid t r w1
    using users_get_all_rows [of creds sid t w] by simp
  show ?thesis
    by (auto simp: get_records_def split: sum.splits prod.splits dest: a)
qed

lemma users_update_record: "users (snd (update_record en k item_id data cu w)) = users w"
proof -
  have a: "get_all_rows creds sid t w = (r, w1) \<Longrightarrow> users w1 = users w" for creds sid t r w1
    using users_get_all_rows [of creds sid t w] by simp
  have b: "update_row creds sid t v c new w1 = (r, w2) \<Longrightarrow> users w2 = users w1"
    for creds sid t v c new w1 r w2
    using users_update_row [of creds sid t v c new w1] by simp
  show ?thesis
    by (auto simp: update_record_def Let_def split: sum.splits prod.splits option.splits dest: a b)
       (metis a b)+
qed

lemma users_delete_record: "users (snd (delete_record en k item_id cu w)) = users w"
proof -
  have a: "delete_row creds sid t v c w = (r, w1) \<Longrightarrow> users w1 = users w" for creds sid t v c r w1
    using users_delete_row [of creds sid t v c w] by simp
  show ?thesis
    by (auto simp: delete_record_def split: sum.splits prod.splits exn.splits dest: a)
qed
section \<open>Session tokens\<close>

lemma create_access_token_default:
  "create_access_token key t data None =
     jwt_encode (dict_update data [(''exp'', ClaimDatetime (t + timedelta_minutes 15))]) key"
  by (simp add: create_access_token_def)

lemma create_access_token_explicit:
  "d \<noteq> 0 \<Longrightarrow> create_access_token key t data (Some d) =
     jwt_encode (dict_update data [(''exp'', ClaimDatetime (t + d))]) key"
  by (simp add: create_access_token_def)

lemma auth_callback_token:
  assumes "auth_callback en st idp w = (Inr tok, w')"
  shows "\<exists>e. jwt_claims tok =
           [(''sub'', JwtStr e), (''exp'', JwtInt ((now en + timedelta_minutes 15) div 1000000))]"
  using assms
  by (auto simp: auth_callback_def Let_def create_access_token_def jwt_encode_def dict_update_def
           split: if_splits option.splits prod.splits)

text \<open>
  C1. The claim: the login flow issues a token that embeds the user's email and expires
  24 hours after it was issued. The code: \<open>auth_callback\<close> calls
  \<open>create_access_token\<close> without a lifetime, so the token of a login at time 0
  carries the email under \<open>sub\<close> and expires at second 900, fifteen minutes later, not
  at second 86400; the constant \<open>ACCESS_TOKEN_EXPIRE_MINUTES\<close>, one day, is never used.
\<close>

theorem login_token_expires_after_15_minutes:
  "fst (auth_callback example_env (Some ''xyz'')
          (Some \<lparr>user_email = Some ''head@school.example'', user_name = Some ''Head'',
                 idp_refresh_token = Some ''refresh''\<rparr>) example_world)
     = Inr \<lparr>jwt_key = ''secret'',
            jwt_claims = [(''sub'', JwtStr ''head@school.example''), (''exp'', JwtInt 900)]\<rparr>
   \<and> (900 :: int) \<noteq> (now example_env + timedelta_minutes ACCESS_TOKEN_EXPIRE_MINUTES) div 1000000"
  by (simp add: auth_callback_def example_env_def example_world_def create_access_token_def
      jwt_encode_def dict_update_def timedelta_minutes_def ACCESS_TOKEN_EXPIRE_MINUTES_def Let_def)

section \<open>The user directory\<close>

lemma save_or_update_user_frame:
  assumes "get_user_by_email e' db = Some row"
  shows "\<exists>row'. get_user_by_email e' (save_or_update_user e n tok db) = Some row'
        \<and> spreadsheet_id row' = spreadsheet_id row \<and> email row' = email row
        \<and> (e' = e \<longrightarrow> name row' = n \<and> encrypted_refresh_token row' = tok)
        \<and> (e' \<noteq> e \<longrightarrow> row' = row)"
proof -
  let ?f = "\<lambda>row. if email row = e then row\<lparr>name := n, encrypted_refresh_token := tok\<rparr> else row"
  have em: "email row = e'"
    using assms by (auto simp: get_user_by_email_def find_Some_iff)
  show ?thesis
  proof (cases "find (\<lambda>row. email row = e) db")
    case None
    then have "e' \<noteq> e" using assms by (auto simp: get_user_by_email_def)
    moreover have "find (\<lambda>r. email r = e')
        (db @ [\<lparr>email = e, name = n, encrypted_refresh_token = tok, spreadsheet_id = Null\<rparr>]) = Some row"
      using assms by (simp add: get_user_by_email_def find_append_if)
    ultimately show ?thesis using None
      by (simp add: save_or_update_user_def get_user_by_email_def)
  next
    case (Some r)
    have "find (\<lambda>r. email r = e') (map ?f db) = map_option ?f (find (\<lambda>r. email r = e') db)"
      by (rule find_map_keep) simp
    then show ?thesis using Some assms em
      by (auto simp: save_or_update_user_def get_user_by_email_def)
  qed
qed

lemma auth_callback_users:
  "users (snd (auth_callback en st idp w)) = users w
   \<or> (\<exists>e n tok. users (snd (auth_callback en st idp w)) = save_or_update_user e n tok (users w))"
  by (auto simp: auth_callback_def Let_def split: if_splits option.splits prod.splits)

lemma setup_sheet_provisioned:
  assumes "get_user_by_email (email cu) (users w) = Some u" and "truthy (spreadsheet_id u)"
  shows "setup_sheet en cu w =
     (Inr \<lparr>message = ''Spreadsheet already set up.'', answer_spreadsheet_id = spreadsheet_id u,
           url = None\<rparr>, w)"
  using assms by (simp add: setup_sheet_def)

text \<open>
  C9. The upsert of a login, \<open>save_or_update_user\<close>, leaves the container identifier
  (and the email) of every stored user as it was: the row of the user who logs in gets
  the new display name and the new encrypted credential, every other row is unchanged.
  The same holds for the whole login endpoint. No CRUD operation writes the user
  table, and the provisioning operation leaves a user who has an identifier untouched.
\<close>

theorem login_upsert_keeps_spreadsheet_id:
  assumes "get_user_by_email e' (users w) = Some row"
  shows "(\<exists>row'. get_user_by_email e' (save_or_update_user e n tok (users w)) = Some row'
            \<and> spreadsheet_id row' = spreadsheet_id row \<and> email row' = email row
            \<and> (e' = e \<longrightarrow> name row' = n \<and> encrypted_refresh_token row' = tok)
            \<and> (e' \<noteq> e \<longrightarrow> row' = row))
       \<and> (\<exists>row'. get_user_by_email e' (users (snd (auth_callback en st idp w))) = Some row'
            \<and> spreadsheet_id row' = spreadsheet_id row)
       \<and> users (snd (add_record en k data cu w)) = users w
       \<and> users (snd (get_records en k cu w)) = users w
       \<and> users (snd (update_record en k item_id upd cu w)) = users w
       \<and> users (snd (delete_record en k item_id cu w)) = users w
       \<and> (truthy (spreadsheet_id row) \<longrightarrow> users (snd (setup_sheet en row w)) = users w)"
proof -
  have row: "get_user_by_email (email row) (users w) = Some row"
    using assms by (auto simp: get_user_by_email_def find_Some_iff)
  have a: "\<exists>row'. get_user_by_email e' (users (snd (auth_callback en st idp w))) = Some row'
            \<and> spreadsheet_id row' = spreadsheet_id row"
    using auth_callback_users [of en st idp w] save_or_update_user_frame [OF assms] assms
    by metis
  have s: "truthy (spreadsheet_id row) \<longrightarrow> users (snd (setup_sheet en row w)) = users w"
    using setup_sheet_provisioned [OF row] by simp
  show ?thesis
    using save_or_update_user_frame [OF assms, of e n tok] a s
    by (simp only: users_add_record users_get_records users_update_record users_delete_record
        simp_thms)
qed

theorem login_upsert_keeps_spreadsheet_id_witness:
  "get_user_by_email ''head@school.example''
      (save_or_update_user ''head@school.example'' ''New Name'' ''enc:new'' (users example_world))
     = Some (example_user\<lparr>name := ''New Name'', encrypted_refresh_token := ''enc:new''\<rparr>)
   \<and> spreadsheet_id (example_user\<lparr>name := ''New Name'', encrypted_refresh_token := ''enc:new''\<rparr>)
       = Text example_sid"
proof -
  have h: "get_user_by_email ''head@school.example'' (users example_world) = Some example_user"
    by (simp add: get_user_by_email_def example_world_def example_user_def)
  from login_upsert_keeps_spreadsheet_id [OF h, of "''head@school.example''" "''New Name''" "''enc:new''"]
  obtain row' where "get_user_by_email ''head@school.example''
      (save_or_update_user ''head@school.example'' ''New Name'' ''enc:new'' (users example_world)) = Some row'"
    and "spreadsheet_id row' = spreadsheet_id example_user"
    by blast
  then show ?thesis
    by (auto simp: get_user_by_email_def save_or_update_user_def example_world_def example_user_def)
qed

section \<open>The container identifier is resolved first\<close>

lemma get_spreadsheet_id_ok:
  assumes "get_user_by_email (email cu) (users w) = Some u"
    and "spreadsheet_id u = Text s" and "30 \<le> length s"
  shows "get_spreadsheet_id cu w = Inr s"
  using assms by (auto simp: get_spreadsheet_id_def Let_def)

lemma get_spreadsheet_id_bad:
  assumes "get_user_by_email (email cu) (users w) = Some u"
    and "\<not> truthy (spreadsheet_id u) \<or> \<not> is_str (spreadsheet_id u) \<or> db_len (spreadsheet_id u) < 30"
  shows "get_spreadsheet_id cu w = Inl (HTTPException 400)"
  using assms by (auto simp: get_spreadsheet_id_def Let_def)

text \<open>
  C8. When the acting user's stored container identifier is absent (\<open>NULL\<close> or empty),
  is not a string, or has fewer than 30 characters, each of the four CRUD operations
  fails with status 400 and returns the world as it was: in particular no request to
  the spreadsheet service has been issued, and this holds whatever the credential is.
\<close>

theorem crud_not_provisioned:
  assumes "get_user_by_email (email cu) (users w) = Some u"
    and "\<not> truthy (spreadsheet_id u) \<or> \<not> is_str (spreadsheet_id u) \<or> db_len (spreadsheet_id u) < 30"
  shows "add_record en k data cu w = (Inl (HTTPException 400), w)
       \<and> get_records en k cu w = (Inl (HTTPException 400), w)
       \<and> update_record en k item_id upd cu w = (Inl (HTTPException 400), w)
       \<and> delete_record en k item_id cu w = (Inl (HTTPException 400), w)"
  using get_spreadsheet_id_bad [OF assms]
  by (simp add: add_record_def get_records_def update_record_def delete_record_def)

theorem crud_not_provisioned_witness:
  "delete_record example_env app_users ''USR-00AA11'' new_user fresh_world
     = (Inl (HTTPException 400), fresh_world)
   \<and> requests fresh_world = []"
proof -
  have h1: "get_user_by_email (email new_user) (users fresh_world) = Some new_user"
    by (simp add: get_user_by_email_def fresh_world_def new_user_def example_user_def)
  have h2: "\<not> truthy (spreadsheet_id new_user) \<or> \<not> is_str (spreadsheet_id new_user)
            \<or> db_len (spreadsheet_id new_user) < 30"
    by (simp add: new_user_def)
  show ?thesis
    using crud_not_provisioned [OF h1 h2, of example_env app_users "\<lparr>inst_dict = [], fields_set = {}\<rparr>" "''USR-00AA11''" "\<lparr>inst_dict = [], fields_set = {}\<rparr>"]
    by (simp add: fresh_world_def)
qed

section \<open>Searching a sheet\<close>

lemma list_index_Some:
  "list_index x xs = Some i \<Longrightarrow> i < length xs \<and> xs ! i = x \<and> (\<forall>j < i. xs ! j \<noteq> x)"
proof (induction xs arbitrary: i)
  case Nil
  then show ?case by simp
next
  case (Cons y ys)
  show ?case
  proof (cases "y = x")
    case True
    with Cons.prems show ?thesis by simp
  next
    case False
    with Cons.prems obtain i' where i': "list_index x ys = Some i'" "i = Suc i'"
      by auto
    from Cons.IH [OF i'(1)] False i'(2) show ?thesis
      by (auto simp: nth_Cons split: nat.splits)
  qed
qed

lemma list_index_None: "list_index x xs = None \<longleftrightarrow> x \<notin> set xs"
  by (induction xs) auto

lemma list_index_distinct:
  "distinct xs \<Longrightarrow> i < length xs \<Longrightarrow> list_index (xs ! i) xs = Some i"
proof (induction xs arbitrary: i)
  case Nil
  then show ?case by simp
next
  case (Cons y ys)
  then show ?case by (cases i) auto
qed

lemma scan_rows_None:
  "scan_rows c v i rows = None \<longleftrightarrow> (\<forall>row \<in> set rows. \<not> (c < length row \<and> row ! c = v))"
  by (induction rows arbitrary: i) auto

lemma scan_rows_Some:
  "scan_rows c v i rows = Some n \<longleftrightarrow>
     (\<exists>j < length rows. n = i + j + 1 \<and> c < length (rows ! j) \<and> rows ! j ! c = v
        \<and> (\<forall>j' < j. \<not> (c < length (rows ! j') \<and> rows ! j' ! c = v)))"
proof (induction rows arbitrary: i)
  case Nil
  then show ?case by simp
next
  case (Cons row rows)
  show ?case
  proof (cases "c < length row \<and> row ! c = v")
    case True
    have "(\<exists>j < length (row # rows). n = i + j + 1 \<and> c < length ((row # rows) ! j)
             \<and> (row # rows) ! j ! c = v
             \<and> (\<forall>j' < j. \<not> (c < length ((row # rows) ! j') \<and> (row # rows) ! j' ! c = v)))
          \<longleftrightarrow> n = i + 1"
      (is "?L \<longleftrightarrow> _")
    proof
      assume "\<exists>j < length (row # rows). n = i + j + 1 \<and> c < length ((row # rows) ! j)
             \<and> (row # rows) ! j ! c = v
             \<and> (\<forall>j' < j. \<not> (c < length ((row # rows) ! j') \<and> (row # rows) ! j' ! c = v))"
      then obtain j where j: "n = i + j + 1"
        "\<forall>j' < j. \<not> (c < length ((row # rows) ! j') \<and> (row # rows) ! j' ! c = v)"
        by blast
      have "j = 0"
      proof (rule ccontr)
        assume "j \<noteq> 0"
        then have "0 < j" by simp
        with j(2) True show False by fastforce
      qed
      with j(1) show "n = i + 1" by simp
    next
      assume "n = i + 1"
      with True show "\<exists>j < length (row # rows). n = i + j + 1 \<and> c < length ((row # rows) ! j)
             \<and> (row # rows) ! j ! c = v
             \<and> (\<forall>j' < j. \<not> (c < length ((row # rows) ! j') \<and> (row # rows) ! j' ! c = v))"
        by (intro exI [of _ 0]) simp
    qed
    then have step: "n = i + 1 \<longleftrightarrow> ?L" by simp
    have "scan_rows c v i (row # rows) = Some n \<longleftrightarrow> n = i + 1"
      using True by auto
    also note step
    finally show ?thesis .
  next
    case False
    have "(\<exists>j < length (row # rows). n = i + j + 1 \<and> c < length ((row # rows) ! j)
             \<and> (row # rows) ! j ! c = v
             \<and> (\<forall>j' < j. \<not> (c < length ((row # rows) ! j') \<and> (row # rows) ! j' ! c = v)))
          \<longleftrightarrow> (\<exists>j < length rows. n = Suc i + j + 1 \<and> c < length (rows ! j) \<and> rows ! j ! c = v
             \<and> (\<forall>j' < j. \<not> (c < length (rows ! j') \<and> rows ! j' ! c = v)))"
      (is "?L \<longleftrightarrow> ?R")
    proof
      assume ?L
      then obtain j where j: "j < length (row # rows)" "n = i + j + 1"
        "c < length ((row # rows) ! j)" "(row # rows) ! j ! c = v"
        "\<forall>j' < j. \<not> (c < length ((row # rows) ! j') \<and> (row # rows) ! j' ! c = v)"
        by blast
      with False obtain j0 where j0: "j = Suc j0" by (cases j) auto
      have "\<forall>j' < j0. \<not> (c < length (rows ! j') \<and> rows ! j' ! c = v)"
      proof (intro allI impI)
        fix j' assume "j' < j0"
        then have "Suc j' < j" using j0 by simp
        with j(5) show "\<not> (c < length (rows ! j') \<and> rows ! j' ! c = v)" by fastforce
      qed
      with j j0 show ?R by (intro exI [of _ j0]) simp
    next
      assume ?R
      then obtain j where j: "j < length rows" "n = Suc i + j + 1"
        "c < length (rows ! j)" "rows ! j ! c = v"
        "\<forall>j' < j. \<not> (c < length (rows ! j') \<and> rows ! j' ! c = v)"
        by blast
      have "\<forall>j' < Suc j. \<not> (c < length ((row # rows) ! j') \<and> (row # rows) ! j' ! c = v)"
      proof (intro allI impI)
        fix j' assume lt: "j' < Suc j"
        show "\<not> (c < length ((row # rows) ! j') \<and> (row # rows) ! j' ! c = v)"
        proof (cases j')
          case 0
          with False show ?thesis by simp
        next
          case (Suc j'')
          with lt j(5) show ?thesis by simp
        qed
      qed
      with j show ?L by (intro exI [of _ "Suc j"]) simp
    qed
    then have step: "?R \<longleftrightarrow> ?L" by simp
    have "scan_rows c v i (row # rows) = Some n \<longleftrightarrow> scan_rows c v (Suc i) rows = Some n"
      using False by auto
    also have "\<dots> \<longleftrightarrow> ?R" by (rule Cons.IH)
    also note step
    finally show ?thesis .
  qed
qed

lemma search_values_Inr:
  "search_values vals v col = Inr n \<longleftrightarrow>
     (\<exists>c. vals \<noteq> [] \<and> list_index col (hd vals) = Some c \<and> 0 < n \<and> n \<le> length vals
        \<and> c < length (vals ! (n - 1)) \<and> vals ! (n - 1) ! c = v
        \<and> (\<forall>j < n - 1. \<not> (c < length (vals ! j) \<and> vals ! j ! c = v)))"
proof (cases vals)
  case Nil
  then show ?thesis by (simp add: search_values_def)
next
  case (Cons headers rest)
  show ?thesis
  proof (cases "list_index col headers")
    case None
    with Cons show ?thesis by (simp add: search_values_def)
  next
    case (Some c)
    have "search_values vals v col = Inr n \<longleftrightarrow> scan_rows c v 0 vals = Some n"
      using Cons Some by (simp add: search_values_def split: option.splits)
    also have "\<dots> \<longleftrightarrow> (\<exists>j < length vals. n = j + 1 \<and> c < length (vals ! j) \<and> vals ! j ! c = v
        \<and> (\<forall>j' < j. \<not> (c < length (vals ! j') \<and> vals ! j' ! c = v)))"
      by (simp add: scan_rows_Some)
    also have "\<dots> \<longleftrightarrow> (0 < n \<and> n \<le> length vals
        \<and> c < length (vals ! (n - 1)) \<and> vals ! (n - 1) ! c = v
        \<and> (\<forall>j < n - 1. \<not> (c < length (vals ! j) \<and> vals ! j ! c = v)))"
      by (cases n) auto
    finally show ?thesis using Cons Some by simp
  qed
qed

lemma search_values_header:
  assumes "col \<in> set headers"
  shows "search_values (headers # rest) col col = Inr 1"
proof -
  from assms obtain c where c: "list_index col headers = Some c"
    by (cases "list_index col headers") (auto simp: list_index_None)
  from list_index_Some [OF c] have "c < length headers" "headers ! c = col" by simp_all
  with c show ?thesis by (simp add: search_values_def)
qed

lemma search_values_no_match:
  assumes "\<forall>c. vals \<noteq> [] \<longrightarrow> list_index col (hd vals) = Some c \<longrightarrow>
             (\<forall>row \<in> set vals. \<not> (c < length row \<and> row ! c = v))"
  shows "search_values vals v col = Inl ValueError"
proof (cases vals)
  case Nil
  then show ?thesis by (simp add: search_values_def)
next
  case (Cons headers rest)
  show ?thesis
  proof (cases "list_index col headers")
    case None
    with Cons show ?thesis by (simp add: search_values_def)
  next
    case (Some c)
    with assms Cons have "\<forall>row \<in> set vals. \<not> (c < length row \<and> row ! c = v)" by simp
    then have "scan_rows c v 0 vals = None" by (simp add: scan_rows_None)
    with Cons Some show ?thesis by (simp add: search_values_def)
  qed
qed

subsection \<open>Requests that the service answers\<close>

lemma spreadsheets_get_ok:
  assumes "faults w = []" and "drive w sid = Some ss"
  shows "spreadsheets_get sid w =
     (Inr (map (\<lambda>s. (sheetId s, title s)) ss), w\<lparr>requests := requests w @ [SpreadsheetsGet sid]\<rparr>)"
  using assms by (simp add: spreadsheets_get_def issue_no_faults)

lemma values_get_ok:
  assumes "faults w = []" and "drive w sid = Some ss" and "find_sheet t ss = Some s"
  shows "values_get sid t w = (Inr (cells s), w\<lparr>requests := requests w @ [ValuesGet sid t]\<rparr>)"
  using assms by (simp add: values_get_def issue_no_faults)

lemma find_row_index_ok:
  assumes "faults w = []" and "drive w sid = Some ss" and "find_sheet t ss = Some s"
  shows "find_row_index creds sid t v col w =
     (search_values (cells s) v col, w\<lparr>requests := requests w @ [ValuesGet sid t]\<rparr>)"
  using values_get_ok [OF assms] by (simp add: find_row_index_def)

lemma spreadsheets_batch_update_ok:
  assumes "faults w = []" and "drive w sid = Some ss" and "apply_requests reqs ss = Some ss'"
  shows "spreadsheets_batch_update sid reqs w =
     (Inr (), w\<lparr>requests := requests w @ [SpreadsheetsBatchUpdate sid reqs],
                drive := (drive w)(sid \<mapsto> ss')\<rparr>)"
  using assms by (simp add: spreadsheets_batch_update_def issue_no_faults)

lemma values_update_ok:
  assumes "faults w = []" and "drive w sid = Some ss" and "find_sheet t ss = Some s" and "0 < i"
  shows "values_update sid t i row w =
     (Inr (), w\<lparr>requests := requests w @ [ValuesUpdate sid t i row],
                drive := (drive w)(sid \<mapsto> map_sheet t (write_row (i - 1) row) ss)\<rparr>)"
  using assms by (simp add: values_update_def issue_no_faults)

lemma find_sheet_metadata:
  "find (\<lambda>p. snd p = t) (map (\<lambda>s. (sheetId s, title s)) ss)
     = map_option (\<lambda>s. (sheetId s, title s)) (find_sheet t ss)"
  by (induction ss) (auto simp: find_sheet_def)

lemma find_sheet_in_set: "find_sheet t ss = Some s \<Longrightarrow> s \<in> set ss \<and> title s = t"
  by (auto simp: find_sheet_def find_Some_iff)

lemma find_sheet_map_cells:
  assumes "find_sheet t ss = Some s"
  shows "find_sheet t (map (\<lambda>x. if P x then x\<lparr>cells := f (cells x)\<rparr> else x) ss)
     = Some (if P s then s\<lparr>cells := f (cells s)\<rparr> else s)"
proof -
  let ?g = "\<lambda>x. if P x then x\<lparr>cells := f (cells x)\<rparr> else x"
  have "find (\<lambda>s. title s = t) (map ?g ss) = map_option ?g (find (\<lambda>s. title s = t) ss)"
    by (rule find_map_keep) simp
  with assms show ?thesis by (simp add: find_sheet_def)
qed

lemma write_row_head:
  "write_row 0 new (headers # rest) = (new @ drop (length new) headers) # rest"
  by (simp add: write_row_def)
section \<open>Update and Delete locate the row by value\<close>

lemma delete_row_ok:
  assumes f: "faults w = []" and d: "drive w sid = Some ss" and s: "find_sheet t ss = Some s"
    and n: "search_values (cells s) v col = Inr n"
  shows "delete_row creds sid t v col w =
     (Inr (), w\<lparr>requests := requests w @ [SpreadsheetsGet sid, ValuesGet sid t,
                    SpreadsheetsBatchUpdate sid [DeleteDimension (sheetId s) (n - 1) n]],
                drive := (drive w)(sid \<mapsto>
                    map (\<lambda>x. if sheetId x = sheetId s
                              then x\<lparr>cells := delete_rows (n - 1) n (cells x)\<rparr> else x) ss)\<rparr>)"
proof -
  let ?w1 = "w\<lparr>requests := requests w @ [SpreadsheetsGet sid]\<rparr>"
  let ?w2 = "?w1\<lparr>requests := requests ?w1 @ [ValuesGet sid t]\<rparr>"
  let ?ss' = "map (\<lambda>x. if sheetId x = sheetId s
                        then x\<lparr>cells := delete_rows (n - 1) n (cells x)\<rparr> else x) ss"
  have g: "spreadsheets_get sid w = (Inr (map (\<lambda>s. (sheetId s, title s)) ss), ?w1)"
    by (rule spreadsheets_get_ok [OF f d])
  have m: "find (\<lambda>p. snd p = t) (map (\<lambda>s. (sheetId s, title s)) ss) = Some (sheetId s, title s)"
    using s by (simp add: find_sheet_metadata)
  have r: "find_row_index creds sid t v col ?w1 = (Inr n, ?w2)"
    using find_row_index_ok [of ?w1 sid ss t s creds v col] f d s n by simp
  have "sheetId s \<in> set (map sheetId ss)"
    using find_sheet_in_set [OF s] by auto
  then have a: "apply_requests [DeleteDimension (sheetId s) (n - 1) n] ss = Some ?ss'"
    by simp
  have b: "spreadsheets_batch_update sid [DeleteDimension (sheetId s) (n - 1) n] ?w2 =
     (Inr (), ?w2\<lparr>requests := requests ?w2 @ [SpreadsheetsBatchUpdate sid [DeleteDimension (sheetId s) (n - 1) n]],
                  drive := (drive ?w2)(sid \<mapsto> ?ss')\<rparr>)"
    by (rule spreadsheets_batch_update_ok) (use f d a in simp_all)
  show ?thesis
    using g m r b by (simp add: delete_row_def)
qed

lemma delete_row_not_found:
  assumes f: "faults w = []" and d: "drive w sid = Some ss"
    and n: "\<forall>s. find_sheet t ss = Some s \<longrightarrow> search_values (cells s) v col = Inl ValueError"
  shows "\<exists>rs. delete_row creds sid t v col w = (Inl ValueError, w\<lparr>requests := requests w @ rs\<rparr>)
           \<and> set rs \<subseteq> {SpreadsheetsGet sid, ValuesGet sid t}"
proof -
  let ?w1 = "w\<lparr>requests := requests w @ [SpreadsheetsGet sid]\<rparr>"
  have g: "spreadsheets_get sid w = (Inr (map (\<lambda>s. (sheetId s, title s)) ss), ?w1)"
    by (rule spreadsheets_get_ok [OF f d])
  show ?thesis
  proof (cases "find_sheet t ss")
    case None
    then have "find (\<lambda>p. snd p = t) (map (\<lambda>s. (sheetId s, title s)) ss) = None"
      by (simp add: find_sheet_metadata)
    with g have "delete_row creds sid t v col w = (Inl ValueError, w\<lparr>requests := requests w @ [SpreadsheetsGet sid]\<rparr>)"
      by (simp add: delete_row_def)
    then show ?thesis by (intro exI [of _ "[SpreadsheetsGet sid]"]) simp
  next
    case (Some s)
    then have m: "find (\<lambda>p. snd p = t) (map (\<lambda>s. (sheetId s, title s)) ss) = Some (sheetId s, title s)"
      by (simp add: find_sheet_metadata)
    have r: "find_row_index creds sid t v col ?w1 =
        (Inl ValueError, ?w1\<lparr>requests := requests ?w1 @ [ValuesGet sid t]\<rparr>)"
      using find_row_index_ok [of ?w1 sid ss t s creds v col] f d Some n by simp
    have "delete_row creds sid t v col w =
        (Inl ValueError, w\<lparr>requests := requests w @ [SpreadsheetsGet sid, ValuesGet sid t]\<rparr>)"
      using g m r by (simp add: delete_row_def)
    then show ?thesis by (intro exI [of _ "[SpreadsheetsGet sid, ValuesGet sid t]"]) simp
  qed
qed

lemma update_row_ok:
  assumes f: "faults w = []" and d: "drive w sid = Some ss" and s: "find_sheet t ss = Some s"
    and n: "search_values (cells s) v col = Inr n"
  shows "update_row creds sid t v col new w =
     (Inr (), w\<lparr>requests := requests w @ [ValuesGet sid t, ValuesUpdate sid t n new],
                drive := (drive w)(sid \<mapsto> map_sheet t (write_row (n - 1) new) ss)\<rparr>)"
proof -
  let ?w1 = "w\<lparr>requests := requests w @ [ValuesGet sid t]\<rparr>"
  have r: "find_row_index creds sid t v col w = (Inr n, ?w1)"
    using find_row_index_ok [OF f d s, of creds v col] n by simp
  from n have "0 < n" by (auto simp: search_values_Inr)
  then have u: "values_update sid t n new ?w1 =
     (Inr (), ?w1\<lparr>requests := requests ?w1 @ [ValuesUpdate sid t n new],
                  drive := (drive ?w1)(sid \<mapsto> map_sheet t (write_row (n - 1) new) ss)\<rparr>)"
    by (intro values_update_ok [where s = s]) (use f d s in simp_all)
  show ?thesis using r u by (simp add: update_row_def)
qed

text \<open>
  C10. In a sheet the service serves, \<open>find_row_index\<close> answers \<open>n\<close> exactly when
  row \<open>n\<close>, counted from 1 with the header row as row 1, is the first row of the sheet
  whose cell in the searched column is the search value. So a search for the header of
  the column itself answers 1, the header row; \<open>delete_row\<close> then removes the header
  row from the sheet and \<open>update_row\<close> overwrites it. (\<open>update_record\<close> reaches
  \<open>update_row\<close> when some data row carries that identifier, \<open>delete_record\<close> calls
  \<open>delete_row\<close> at once.)
\<close>

theorem find_row_index_scans_from_header_row:
  assumes "faults w = []" and "drive w sid = Some ss" and "find_sheet t ss = Some s"
  shows "(fst (find_row_index creds sid t v col w) = Inr n \<longleftrightarrow>
            (\<exists>c. cells s \<noteq> [] \<and> list_index col (hd (cells s)) = Some c
               \<and> 0 < n \<and> n \<le> length (cells s)
               \<and> c < length (cells s ! (n - 1)) \<and> cells s ! (n - 1) ! c = v
               \<and> (\<forall>j < n - 1. \<not> (c < length (cells s ! j) \<and> cells s ! j ! c = v))))
       \<and> (cells s = headers # rest \<and> col \<in> set headers \<longrightarrow>
            fst (find_row_index creds sid t col col w) = Inr 1
          \<and> (\<exists>w' ss'. delete_row creds sid t col col w = (Inr (), w') \<and> drive w' sid = Some ss'
                \<and> find_sheet t ss' = Some (s\<lparr>cells := rest\<rparr>))
          \<and> (\<exists>w' ss'. update_row creds sid t col col new w = (Inr (), w') \<and> drive w' sid = Some ss'
                \<and> find_sheet t ss' = Some (s\<lparr>cells := (new @ drop (length new) headers) # rest\<rparr>)))"
proof -
  have r: "find_row_index creds sid t v col w =
      (search_values (cells s) v col, w\<lparr>requests := requests w @ [ValuesGet sid t]\<rparr>)" for v
    by (rule find_row_index_ok [OF assms])
  have one: "fst (find_row_index creds sid t v col w) = Inr n \<longleftrightarrow>
            (\<exists>c. cells s \<noteq> [] \<and> list_index col (hd (cells s)) = Some c
               \<and> 0 < n \<and> n \<le> length (cells s)
               \<and> c < length (cells s ! (n - 1)) \<and> cells s ! (n - 1) ! c = v
               \<and> (\<forall>j < n - 1. \<not> (c < length (cells s ! j) \<and> cells s ! j ! c = v)))"
    by (simp only: r fst_conv search_values_Inr)
  have two: "fst (find_row_index creds sid t col col w) = Inr 1
          \<and> (\<exists>w' ss'. delete_row creds sid t col col w = (Inr (), w') \<and> drive w' sid = Some ss'
                \<and> find_sheet t ss' = Some (s\<lparr>cells := rest\<rparr>))
          \<and> (\<exists>w' ss'. update_row creds sid t col col new w = (Inr (), w') \<and> drive w' sid = Some ss'
                \<and> find_sheet t ss' = Some (s\<lparr>cells := (new @ drop (length new) headers) # rest\<rparr>))"
    if c: "cells s = headers # rest" and h: "col \<in> set headers"
  proof -
    have sv: "search_values (cells s) col col = Inr 1"
      using search_values_header [OF h] c by simp
    have t: "title s = t" using find_sheet_in_set [OF assms(3)] by simp
    have del: "find_sheet t (map (\<lambda>x. if sheetId x = sheetId s
                  then x\<lparr>cells := delete_rows (1 - 1) 1 (cells x)\<rparr> else x) ss)
               = Some (s\<lparr>cells := rest\<rparr>)"
      using find_sheet_map_cells [OF assms(3), of "\<lambda>x. sheetId x = sheetId s" "delete_rows (1 - 1) 1"] c
      by (simp add: delete_rows_def)
    have upd: "find_sheet t (map_sheet t (write_row (1 - 1) new) ss)
               = Some (s\<lparr>cells := (new @ drop (length new) headers) # rest\<rparr>)"
      using find_sheet_map_cells [OF assms(3), of "\<lambda>x. title x = t" "write_row 0 new"] c t
      by (simp add: map_sheet_def write_row_head)
    show ?thesis
      using delete_row_ok [OF assms sv, of creds] update_row_ok [OF assms sv, of creds new] del upd
      by (simp add: r sv)
  qed
  from one two show ?thesis by blast
qed

theorem find_row_index_scans_from_header_row_witness:
  "fst (find_row_index example_creds example_sid ''Users'' ''User ID'' ''User ID'' example_world) = Inr 1
   \<and> (\<exists>w' ss'. delete_row example_creds example_sid ''Users'' ''User ID'' ''User ID'' example_world = (Inr (), w')
        \<and> drive w' example_sid = Some ss'
        \<and> find_sheet ''Users'' ss' =
            Some \<lparr>sheetId = 5, title = ''Users'', cells = [[''USR-00AA11'', ''ann'', ''pw'', ''admin'']]\<rparr>)"
proof -
  let ?s = "\<lparr>sheetId = 5, title = ''Users'',
             cells = [users_header, [''USR-00AA11'', ''ann'', ''pw'', ''admin'']]\<rparr>"
  have h1: "faults example_world = []" by (simp add: example_world_def)
  have h2: "drive example_world example_sid = Some [?s]" by (simp add: example_world_def)
  have h3: "find_sheet ''Users'' [?s] = Some ?s" by (simp add: find_sheet_def)
  have h4: "cells ?s = users_header # [[''USR-00AA11'', ''ann'', ''pw'', ''admin'']]
            \<and> ''User ID'' \<in> set users_header"
    by (simp add: users_header_def)
  show ?thesis
    using find_row_index_scans_from_header_row [OF h1 h2 h3,
        of example_creds "''User ID''" "''User ID''" 1 users_header
           "[[''USR-00AA11'', ''ann'', ''pw'', ''admin'']]" "[]"] h4
    by simp
qed

section \<open>Delete of an identifier that no record carries\<close>

text \<open>
  The acting user is provisioned, the credential decrypts, the service answers, and the
  container exists. If the sheet of the record kind is missing, is empty, lacks the
  identifier column, or has no row, the header row counted as a row, whose cell in the
  identifier column is the requested identifier, then \<open>delete_record\<close> fails with
  status 404, and the world it leaves differs from the one it found only by the read
  requests (\<open>spreadsheets().get\<close>, \<open>values().get\<close>) appended to the log: the
  spreadsheets, and the user table, are unchanged.
\<close>

lemma delete_record_no_row:
  assumes "get_spreadsheet_id cu w = Inr sid" and "get_google_credentials en cu = Inr creds"
    and "faults w = []" and "drive w sid = Some ss"
    and "\<forall>s c. find_sheet (sheet_name k) ss = Some s \<longrightarrow> cells s \<noteq> [] \<longrightarrow>
           list_index (id_field k) (hd (cells s)) = Some c \<longrightarrow>
           (\<forall>row \<in> set (cells s). \<not> (c < length row \<and> row ! c = item_id))"
  shows "\<exists>rs. delete_record en k item_id cu w =
                 (Inl (HTTPException 404), w\<lparr>requests := requests w @ rs\<rparr>)
            \<and> set rs \<subseteq> {SpreadsheetsGet sid, ValuesGet sid (sheet_name k)}
            \<and> drive (snd (delete_record en k item_id cu w)) = drive w
            \<and> users (snd (delete_record en k item_id cu w)) = users w"
proof -
  have "\<forall>s. find_sheet (sheet_name k) ss = Some s \<longrightarrow>
          search_values (cells s) item_id (id_field k) = Inl ValueError"
    using assms(5) by (intro allI impI search_values_no_match) blast
  from delete_row_not_found [OF assms(3,4) this, of creds]
  obtain rs where rs: "delete_row creds sid (sheet_name k) item_id (id_field k) w
        = (Inl ValueError, w\<lparr>requests := requests w @ rs\<rparr>)"
    "set rs \<subseteq> {SpreadsheetsGet sid, ValuesGet sid (sheet_name k)}"
    by blast
  have "delete_record en k item_id cu w = (Inl (HTTPException 404), w\<lparr>requests := requests w @ rs\<rparr>)"
    using assms(1,2) rs(1) by (simp add: delete_record_def)
  with rs(2) show ?thesis by (intro exI [of _ rs]) simp
qed

lemma delete_record_no_row_example:
  "\<exists>rs. delete_record example_env app_users ''USR-FFFFFF'' example_user example_world =
           (Inl (HTTPException 404), example_world\<lparr>requests := requests example_world @ rs\<rparr>)
       \<and> drive (snd (delete_record example_env app_users ''USR-FFFFFF'' example_user example_world))
           = drive example_world"
proof -
  let ?s = "\<lparr>sheetId = 5, title = ''Users'',
             cells = [users_header, [''USR-00AA11'', ''ann'', ''pw'', ''admin'']]\<rparr>"
  have h1: "get_spreadsheet_id example_user example_world = Inr example_sid"
    by (simp add: get_spreadsheet_id_def get_user_by_email_def example_world_def example_user_def
        example_sid_def)
  have h2: "get_google_credentials example_env example_user = Inr example_creds"
    by (simp add: get_google_credentials_def example_env_def example_user_def example_creds_def)
  have h3: "faults example_world = []" by (simp add: example_world_def)
  have h4: "drive example_world example_sid = Some [?s]" by (simp add: example_world_def)
  have h5: "\<forall>s c. find_sheet (sheet_name app_users) [?s] = Some s \<longrightarrow> cells s \<noteq> [] \<longrightarrow>
           list_index (id_field app_users) (hd (cells s)) = Some c \<longrightarrow>
           (\<forall>row \<in> set (cells s). \<not> (c < length row \<and> row ! c = ''USR-FFFFFF''))"
    by (auto simp: find_sheet_def app_users_def users_header_def)
  show ?thesis
    using delete_record_no_row [OF h1 h2 h3 h4 h5] by blast
qed

lemma get_records_example:
  "fst (get_records example_env app_users example_user example_world) = Inr [existing_user]"
  by code_simp

lemma delete_header_result:
  "fst (delete_record example_env app_users ''User ID'' example_user example_world) = Inr ()"
  by code_simp

lemma delete_header_drive:
  "drive (snd (delete_record example_env app_users ''User ID'' example_user example_world)) example_sid
     = Some [\<lparr>sheetId = 5, title = ''Users'',
               cells = [[''USR-00AA11'', ''ann'', ''pw'', ''admin'']]\<rparr>]"
  by code_simp

text \<open>
  C4. The claim: Delete of an identifier that no record carries fails with status 404
  and changes nothing in the row store. The code: the sheet \<open>Users\<close> holds one
  record, with identifier \<open>USR-00AA11\<close>, and \<open>get_records\<close> lists just that one;
  no record carries the identifier \<open>User ID\<close>. Yet \<open>delete_record\<close> of
  \<open>User ID\<close> succeeds, and the sheet it leaves has lost its header row:
  \<open>find_row_index\<close> searches from the header row, where the cell of the identifier
  column is the text \<open>User ID\<close>, while \<open>get_all_rows\<close> skips that row.
\<close>

theorem delete_record_removes_header_row:
  "fst (get_records example_env app_users example_user example_world) = Inr [existing_user]
   \<and> map_of (inst_dict existing_user) ''user_id'' = Some (PyStr ''USR-00AA11'')
   \<and> fst (delete_record example_env app_users ''User ID'' example_user example_world) = Inr ()
   \<and> drive example_world example_sid
       = Some [\<lparr>sheetId = 5, title = ''Users'',
                 cells = [[''User ID'', ''Username'', ''Password'', ''Role''],
                          [''USR-00AA11'', ''ann'', ''pw'', ''admin'']]\<rparr>]
   \<and> drive (snd (delete_record example_env app_users ''User ID'' example_user example_world)) example_sid
       = Some [\<lparr>sheetId = 5, title = ''Users'',
                 cells = [[''USR-00AA11'', ''ann'', ''pw'', ''admin'']]\<rparr>]"
  using get_records_example delete_header_result delete_header_drive
  by (simp add: existing_user_def example_world_def users_header_def)

section \<open>Provisioning\<close>

lemma get_user_by_email_email: "get_user_by_email e db = Some u \<Longrightarrow> email u = e"
  by (auto simp: get_user_by_email_def find_Some_iff)

lemma get_user_after_update_spreadsheet_id:
  assumes "get_user_by_email e db = Some u"
  shows "get_user_by_email e (update_spreadsheet_id e sid db) = Some (u\<lparr>spreadsheet_id := Text sid\<rparr>)"
proof -
  let ?f = "\<lambda>row. if email row = e then row\<lparr>spreadsheet_id := Text sid\<rparr> else row"
  have "find (\<lambda>r. email r = e) (map ?f db) = map_option ?f (find (\<lambda>r. email r = e) db)"
    by (rule find_map_keep) simp
  with assms get_user_by_email_email [OF assms] show ?thesis
    by (simp add: get_user_by_email_def update_spreadsheet_id_def)
qed

lemma spreadsheets_create_Inr:
  assumes "spreadsheets_create t w = (Inr sid, wc)"
  shows "sid \<in> set (remote_ids w) \<and> users wc = users w
       \<and> requests wc = requests w @ [SpreadsheetsCreate t]"
proof (cases "issue (SpreadsheetsCreate t) w")
  case (Pair ok w1)
  then have "remote_ids w1 = remote_ids w" "users w1 = users w"
    "requests w1 = requests w @ [SpreadsheetsCreate t]"
    by (auto simp: issue_def split: list.splits)
  with Pair assms show ?thesis
    by (auto simp: spreadsheets_create_def split: if_splits list.splits)
qed

lemma requests_spreadsheets_batch_update:
  "requests (snd (spreadsheets_batch_update sid reqs w)) = requests w @ [SpreadsheetsBatchUpdate sid reqs]"
proof (cases "issue (SpreadsheetsBatchUpdate sid reqs) w")
  case (Pair ok w1)
  then have "requests w1 = requests w @ [SpreadsheetsBatchUpdate sid reqs]"
    using issue_requests [of "SpreadsheetsBatchUpdate sid reqs" w] by simp
  with Pair show ?thesis by (simp add: spreadsheets_batch_update_def split: option.splits)
qed

lemma requests_values_batch_update:
  "requests (snd (values_batch_update sid data w)) = requests w @ [ValuesBatchUpdate sid data]"
proof (cases "issue (ValuesBatchUpdate sid data) w")
  case (Pair ok w1)
  then have "requests w1 = requests w @ [ValuesBatchUpdate sid data]"
    using issue_requests [of "ValuesBatchUpdate sid data" w] by simp
  with Pair show ?thesis by (simp add: values_batch_update_def split: option.splits)
qed

lemma requests_setup_erp_sheets:
  "\<exists>rest. requests (snd (setup_erp_sheets creds sid w)) = requests w @ rest
          \<and> (\<forall>r \<in> set rest. header_request sid r)"
proof -
  let ?reqs = "map AddSheet (map fst SHEET_STRUCTURE) @ [DeleteSheet 0]"
  let ?data = "map (\<lambda>(sheet_name, headers). (sheet_name, [headers])) SHEET_STRUCTURE"
  obtain r w1 where b: "spreadsheets_batch_update sid ?reqs w = (r, w1)"
    by (cases "spreadsheets_batch_update sid ?reqs w")
  then have r1: "requests w1 = requests w @ [SpreadsheetsBatchUpdate sid ?reqs]"
    using requests_spreadsheets_batch_update [of sid ?reqs w] by simp
  show ?thesis
  proof (cases r)
    case (Inl e)
    with b r1 have "requests (snd (setup_erp_sheets creds sid w))
        = requests w @ [SpreadsheetsBatchUpdate sid ?reqs]"
      by (simp add: setup_erp_sheets_def)
    then show ?thesis by (intro exI [of _ "[SpreadsheetsBatchUpdate sid ?reqs]"]) simp
  next
    case (Inr u)
    with b r1 have "requests (snd (setup_erp_sheets creds sid w))
        = requests w @ [SpreadsheetsBatchUpdate sid ?reqs, ValuesBatchUpdate sid ?data]"
      using requests_values_batch_update [of sid ?data w1]
      by (simp add: setup_erp_sheets_def)
    then show ?thesis
      by (intro exI [of _ "[SpreadsheetsBatchUpdate sid ?reqs, ValuesBatchUpdate sid ?data]"]) simp
  qed
qed

lemma setup_sheet_created:
  assumes u: "get_user_by_email (email cu) (users w) = Some u" and n: "\<not> truthy (spreadsheet_id u)"
    and c: "get_google_credentials en u = Inr creds"
    and s: "create_spreadsheet creds (''ERP Data - '' @ email u) w = (Inr sid, wc)"
  shows "setup_sheet en cu w =
     (case setup_erp_sheets creds sid (wc\<lparr>users := update_spreadsheet_id (email u) sid (users wc)\<rparr>) of
        (Inl e, w3) \<Rightarrow> (Inl (HTTPException 500), w3)
      | (Inr x, w3) \<Rightarrow>
          (Inr \<lparr>message = ''Successfully created and set up ERP spreadsheet!'',
                answer_spreadsheet_id = Text sid,
                url = Some (''https://docs.google.com/spreadsheets/d/'' @ sid)\<rparr>, w3))"
  using assms by (simp add: setup_sheet_def Let_def)

lemma setup_sheet_created_user:
  assumes "get_user_by_email (email cu) (users w) = Some u" and "\<not> truthy (spreadsheet_id u)"
    and "get_google_credentials en u = Inr creds"
    and "create_spreadsheet creds (''ERP Data - '' @ email u) w = (Inr sid, wc)"
  shows "get_user_by_email (email cu) (users (snd (setup_sheet en cu w)))
           = Some (u\<lparr>spreadsheet_id := Text sid\<rparr>)"
proof -
  let ?w2 = "wc\<lparr>users := update_spreadsheet_id (email u) sid (users wc)\<rparr>"
  obtain r w3 where h: "setup_erp_sheets creds sid ?w2 = (r, w3)"
    by (cases "setup_erp_sheets creds sid ?w2")
  have wc: "users wc = users w"
    using spreadsheets_create_Inr [of "''ERP Data - '' @ email u" w sid wc] assms(4)
    by (simp add: create_spreadsheet_def)
  have e: "email u = email cu" by (rule get_user_by_email_email [OF assms(1)])
  have snd_eq: "snd (setup_sheet en cu w) = w3"
    using setup_sheet_created [OF assms] h by (cases r) simp_all
  have "users w3 = users ?w2"
    using users_setup_erp_sheets [of creds sid ?w2] h by simp
  then show ?thesis
    using get_user_after_update_spreadsheet_id [OF assms(1), of sid] wc e snd_eq by simp
qed

text \<open>
  C6. The user has no identifier yet and the container has been created with identifier
  \<open>sid\<close>. Then, whatever becomes of the header-initialization step, the user's row
  holds \<open>sid\<close> when \<open>setup_sheet\<close> ends; when that step fails, \<open>setup_sheet\<close>
  fails with status 500 and the identifier is recorded all the same; and the creation
  request is followed by requests of the header-initialization step only, which runs on
  the user table that already holds \<open>sid\<close>.
\<close>

theorem setup_sheet_records_id_before_headers:
  assumes "get_user_by_email (email cu) (users w) = Some u" and "\<not> truthy (spreadsheet_id u)"
    and "get_google_credentials en u = Inr creds"
    and "create_spreadsheet creds (''ERP Data - '' @ email u) w = (Inr sid, wc)"
  shows "get_user_by_email (email cu) (users (snd (setup_sheet en cu w)))
           = Some (u\<lparr>spreadsheet_id := Text sid\<rparr>)
       \<and> (\<forall>e. fst (setup_erp_sheets creds sid
                     (wc\<lparr>users := update_spreadsheet_id (email u) sid (users wc)\<rparr>)) = Inl e
              \<longrightarrow> fst (setup_sheet en cu w) = Inl (HTTPException 500))
       \<and> (\<exists>rest. requests (snd (setup_sheet en cu w))
                    = requests w @ SpreadsheetsCreate (''ERP Data - '' @ email u) # rest
                \<and> (\<forall>r \<in> set rest. header_request sid r))"
proof -
  let ?w2 = "wc\<lparr>users := update_spreadsheet_id (email u) sid (users wc)\<rparr>"
  obtain r w3 where h: "setup_erp_sheets creds sid ?w2 = (r, w3)"
    by (cases "setup_erp_sheets creds sid ?w2")
  have wc: "requests wc = requests w @ [SpreadsheetsCreate (''ERP Data - '' @ email u)]"
    using spreadsheets_create_Inr [of "''ERP Data - '' @ email u" w sid wc] assms(4)
    by (simp add: create_spreadsheet_def)
  have snd_eq: "snd (setup_sheet en cu w) = w3"
    using setup_sheet_created [OF assms] h by (cases r) simp_all
  have one: "get_user_by_email (email cu) (users (snd (setup_sheet en cu w)))
           = Some (u\<lparr>spreadsheet_id := Text sid\<rparr>)"
    by (rule setup_sheet_created_user [OF assms])
  have two: "\<forall>e. fst (setup_erp_sheets creds sid ?w2) = Inl e
              \<longrightarrow> fst (setup_sheet en cu w) = Inl (HTTPException 500)"
    using setup_sheet_created [OF assms] h by (cases r) simp_all
  from requests_setup_erp_sheets [of creds sid ?w2] h
  obtain rest where rest: "requests w3 = requests ?w2 @ rest" "\<forall>r \<in> set rest. header_request sid r"
    by auto
  then have three: "\<exists>rest. requests (snd (setup_sheet en cu w))
                    = requests w @ SpreadsheetsCreate (''ERP Data - '' @ email u) # rest
                \<and> (\<forall>r \<in> set rest. header_request sid r)"
    using wc snd_eq by (intro exI [of _ rest]) simp
  from one two three show ?thesis by blast
qed

theorem setup_sheet_records_id_before_headers_witness:
  "get_user_by_email (email new_user) (users (snd (setup_sheet example_env new_user faulty_world)))
     = Some (new_user\<lparr>spreadsheet_id := Text example_sid\<rparr>)
   \<and> fst (setup_sheet example_env new_user faulty_world) = Inl (HTTPException 500)"
proof -
  let ?t = "''ERP Data - '' @ email new_user"
  let ?wc = "snd (create_spreadsheet example_creds ?t faulty_world)"
  have h1: "get_user_by_email (email new_user) (users faulty_world) = Some new_user"
    by (simp add: get_user_by_email_def faulty_world_def fresh_world_def)
  have h2: "\<not> truthy (spreadsheet_id new_user)" by (simp add: new_user_def)
  have h3: "get_google_credentials example_env new_user = Inr example_creds"
    by (simp add: get_google_credentials_def example_env_def example_user_def new_user_def
        example_creds_def)
  have "fst (create_spreadsheet example_creds ?t faulty_world) = Inr example_sid"
    by (simp add: create_spreadsheet_def spreadsheets_create_def issue_def faulty_world_def
        fresh_world_def)
  then have h4: "create_spreadsheet example_creds ?t faulty_world = (Inr example_sid, ?wc)"
    by (simp add: prod_eq_iff)
  have h5: "fst (setup_erp_sheets example_creds example_sid
               (?wc\<lparr>users := update_spreadsheet_id (email new_user) example_sid (users ?wc)\<rparr>))
            = Inl HttpError"
    by (simp add: setup_erp_sheets_def spreadsheets_batch_update_def create_spreadsheet_def
        spreadsheets_create_def issue_def faulty_world_def fresh_world_def)
  show ?thesis
    using setup_sheet_records_id_before_headers [OF h1 h2 h3 h4] h5 by blast
qed

text \<open>
  C5. When a call of \<open>setup_sheet\<close> has succeeded, and the service hands out
  non-empty identifiers, a second call for the same user answers the same identifier
  and returns the world as it was: it issues no request at all, in particular no
  container-creation request.
\<close>

theorem setup_sheet_twice:
  assumes "setup_sheet en cu w = (Inr a1, w1)" and "[] \<notin> set (remote_ids w)"
  shows "setup_sheet en' cu w1 =
           (Inr \<lparr>message = ''Spreadsheet already set up.'',
                 answer_spreadsheet_id = answer_spreadsheet_id a1, url = None\<rparr>, w1)
       \<and> requests (snd (setup_sheet en' cu w1)) = requests w1"
proof -
  from assms(1) obtain u where u: "get_user_by_email (email cu) (users w) = Some u"
    by (cases "get_user_by_email (email cu) (users w)") (auto simp: setup_sheet_def)
  have main: "setup_sheet en' cu w1 =
           (Inr \<lparr>message = ''Spreadsheet already set up.'',
                 answer_spreadsheet_id = answer_spreadsheet_id a1, url = None\<rparr>, w1)"
  proof (cases "truthy (spreadsheet_id u)")
    case True
    from setup_sheet_provisioned [OF u True, of en] assms(1)
    have "w1 = w" "answer_spreadsheet_id a1 = spreadsheet_id u" by auto
    with setup_sheet_provisioned [OF u True, of en'] show ?thesis by simp
  next
    case False
    from assms(1) u False obtain creds where c: "get_google_credentials en u = Inr creds"
      by (cases "get_google_credentials en u") (auto simp: setup_sheet_def)
    from assms(1) u False c obtain sid wc
      where s: "create_spreadsheet creds (''ERP Data - '' @ email u) w = (Inr sid, wc)"
      by (cases "create_spreadsheet creds (''ERP Data - '' @ email u) w")
         (auto simp: setup_sheet_def split: sum.splits)
    let ?w2 = "wc\<lparr>users := update_spreadsheet_id (email u) sid (users wc)\<rparr>"
    from setup_sheet_created [OF u False c s] assms(1)
    have a1: "answer_spreadsheet_id a1 = Text sid" and w1: "w1 = snd (setup_sheet en cu w)"
      by (auto split: prod.splits sum.splits)
    have "sid \<in> set (remote_ids w)"
      using spreadsheets_create_Inr [of "''ERP Data - '' @ email u" w sid wc] s
      by (simp add: create_spreadsheet_def)
    with assms(2) have ne: "sid \<noteq> []" by auto
    from setup_sheet_created_user [OF u False c s] w1
    have "get_user_by_email (email cu) (users w1) = Some (u\<lparr>spreadsheet_id := Text sid\<rparr>)"
      by simp
    from setup_sheet_provisioned [OF this, of en'] ne a1 show ?thesis by simp
  qed
  then show ?thesis by simp
qed

theorem setup_sheet_twice_witness:
  "setup_sheet example_env new_user (snd (setup_sheet example_env new_user fresh_world)) =
     (Inr \<lparr>message = ''Spreadsheet already set up.'', answer_spreadsheet_id = Text example_sid,
           url = None\<rparr>,
      snd (setup_sheet example_env new_user fresh_world))"
proof -
  let ?a = "\<lparr>message = ''Successfully created and set up ERP spreadsheet!'',
             answer_spreadsheet_id = Text example_sid,
             url = Some (''https://docs.google.com/spreadsheets/d/'' @ example_sid)\<rparr>"
  have "fst (setup_sheet example_env new_user fresh_world) = Inr ?a"
    by (simp add: setup_sheet_def get_user_by_email_def fresh_world_def new_user_def example_user_def
        get_google_credentials_def example_env_def create_spreadsheet_def spreadsheets_create_def
        issue_def setup_erp_sheets_def spreadsheets_batch_update_def values_batch_update_def
        SHEET_STRUCTURE_def find_sheet_def update_spreadsheet_id_def Let_def)
  then have h1: "setup_sheet example_env new_user fresh_world =
      (Inr ?a, snd (setup_sheet example_env new_user fresh_world))"
    by (simp add: prod_eq_iff)
  have h2: "[] \<notin> set (remote_ids fresh_world)"
    by (simp add: fresh_world_def example_sid_def)
  show ?thesis
    using setup_sheet_twice [OF h1 h2, of example_env] by simp
qed

section \<open>Generated identifiers\<close>

lemma nibble_bound: "unat ((x :: 128 word) AND 15) < 16"
proof -
  have "unat (x AND 15) \<le> unat (15 :: 128 word)"
    by (rule word_and_le1 [THEN word_le_nat_alt [THEN iffD1]])
  then show ?thesis by simp
qed

lemma hex_digit_mem: "d < 16 \<Longrightarrow> hex_digit d \<in> set ''0123456789abcdef''"
  unfolding hex_digit_def by (rule nth_mem) simp

lemma set_uuid_hex: "set (uuid_hex u) \<subseteq> set ''0123456789abcdef''"
  unfolding uuid_hex_def using hex_digit_mem [OF nibble_bound] by auto

lemma length_uuid_hex [simp]: "length (uuid_hex u) = 32"
  by (simp add: uuid_hex_def)

lemma upper_char_hex_cases:
  "upper_char (CHR ''0'') = CHR ''0''" "upper_char (CHR ''1'') = CHR ''1''"
  "upper_char (CHR ''2'') = CHR ''2''" "upper_char (CHR ''3'') = CHR ''3''"
  "upper_char (CHR ''4'') = CHR ''4''" "upper_char (CHR ''5'') = CHR ''5''"
  "upper_char (CHR ''6'') = CHR ''6''" "upper_char (CHR ''7'') = CHR ''7''"
  "upper_char (CHR ''8'') = CHR ''8''" "upper_char (CHR ''9'') = CHR ''9''"
  "upper_char (CHR ''a'') = CHR ''A''" "upper_char (CHR ''b'') = CHR ''B''"
  "upper_char (CHR ''c'') = CHR ''C''" "upper_char (CHR ''d'') = CHR ''D''"
  "upper_char (CHR ''e'') = CHR ''E''" "upper_char (CHR ''f'') = CHR ''F''"
  by (simp_all add: upper_char_def char_of_eq_iff)

lemma inj_on_upper_char_hex: "inj_on upper_char (set ''0123456789abcdef'')"
  by (auto simp: inj_on_def upper_char_hex_cases)

lemma upper_char_hex: "c \<in> set ''0123456789abcdef'' \<Longrightarrow> upper_char c \<in> set ''0123456789ABCDEF''"
  by (auto simp: upper_char_hex_cases)

lemma upper_take_hex:
  "set (upper (take n (uuid_hex u))) \<subseteq> set ''0123456789ABCDEF''"
proof -
  have "set (take n (uuid_hex u)) \<subseteq> set ''0123456789abcdef''"
    using set_take_subset [of n "uuid_hex u"] set_uuid_hex [of u] by blast
  then show ?thesis
    unfolding upper_def using upper_char_hex by auto
qed

lemma upper_take_hex_eq:
  "upper (take n (uuid_hex u)) = upper (take n (uuid_hex u')) \<longleftrightarrow>
     take n (uuid_hex u) = take n (uuid_hex u')"
proof
  assume eq: "upper (take n (uuid_hex u)) = upper (take n (uuid_hex u'))"
  have "set (take n (uuid_hex u)) \<union> set (take n (uuid_hex u')) \<subseteq> set ''0123456789abcdef''"
    using set_take_subset [of n "uuid_hex u"] set_take_subset [of n "uuid_hex u'"]
      set_uuid_hex [of u] set_uuid_hex [of u'] by blast
  then have "inj_on upper_char (set (take n (uuid_hex u)) \<union> set (take n (uuid_hex u')))"
    by (rule inj_on_subset [OF inj_on_upper_char_hex])
  with eq show "take n (uuid_hex u) = take n (uuid_hex u')"
    unfolding upper_def by (rule map_inj_on)
qed simp

lemma gen_id_eq:
  "gen_id p n u = gen_id p n u' \<longleftrightarrow> take n (uuid_hex u) = take n (uuid_hex u')"
  by (simp add: gen_id_def upper_take_hex_eq)

lemma validate_fields_lookup:
  assumes "validate_fields en kwargs m = Some d" and "f \<in> set m" and "distinct (map field_name m)"
  shows "map_of d (field_name f) = field_value en kwargs f"
  using assms
proof (induction m arbitrary: d)
  case Nil
  then show ?case by simp
next
  case (Cons g m)
  from Cons.prems(1) obtain v rest where v: "field_value en kwargs g = Some v"
    and rest: "validate_fields en kwargs m = Some rest" and d: "d = (field_name g, v) # rest"
    by (auto split: option.splits)
  show ?case
  proof (cases "f = g")
    case True
    with v d show ?thesis by simp
  next
    case False
    with Cons.prems have fm: "f \<in> set m" and dm: "distinct (map field_name m)"
      and "field_name g \<notin> field_name ` set m"
      by auto
    then have ne: "field_name f \<noteq> field_name g" by (metis imageI)
    from Cons.IH [OF rest fm dm] d ne show ?thesis by simp
  qed
qed

lemma instantiate_factory_id:
  assumes "instantiate en m payload = Inr data" and "factory key TStr (Factory_id p n) \<in> set m"
    and "distinct (map field_name m)" and "map_of payload key = None"
  shows "map_of (inst_dict data) key = Some (PyStr (gen_id p n (uuid4 (urandom en))))"
proof -
  from assms(1) have "validate_fields en payload m = Some (inst_dict data)"
    by (auto simp: instantiate_def split: option.splits)
  from validate_fields_lookup [OF this assms(2,3)] assms(4) show ?thesis
    by (simp add: factory_def field_value_def default_value_def)
qed

lemma admissions_factory:
  "factory ''admission_id'' TStr (Factory_id ''ADM'' 6) \<in> set (create_model admissions)
   \<and> distinct (map field_name (create_model admissions))"
  by (simp add: admissions_def AdmissionCreate_def AdmissionBase_def req_def opt_def factory_def)

lemma library_factory:
  "factory ''book_id'' TStr (Factory_id ''BK'' 8) \<in> set (create_model library)
   \<and> distinct (map field_name (create_model library))"
  by (simp add: library_def BookCreate_def BookBase_def req_def opt_def dflt_def factory_def)

lemma hostel_factory:
  "factory ''occupancy_id'' TStr (Factory_id ''HOC'' 6) \<in> set (create_model hostel)
   \<and> distinct (map field_name (create_model hostel))"
  by (simp add: hostel_def HostelOccupancyCreate_def HostelOccupancyBase_def req_def opt_def
      factory_def)

lemma fees_factory:
  "factory ''receipt_id'' TStr (Factory_id ''RCPT'' 8) \<in> set (create_model fees)
   \<and> distinct (map field_name (create_model fees))"
  by (simp add: fees_def FeeReceiptCreate_def FeeReceiptBase_def req_def opt_def factory_def)

lemma app_users_factory:
  "factory ''user_id'' TStr (Factory_id ''USR'' 6) \<in> set (create_model app_users)
   \<and> distinct (map field_name (create_model app_users))"
  by (simp add: app_users_def AppUserCreate_def AppUserBase_def req_def factory_def)

lemma id_factories_field:
  assumes "(k, key, p, n) \<in> set id_factories"
  shows "factory key TStr (Factory_id p n) \<in> set (create_model k)
       \<and> distinct (map field_name (create_model k)) \<and> n \<le> 32"
proof -
  from assms have "(k, key, p, n) = (admissions, ''admission_id'', ''ADM'', 6)
      \<or> (k, key, p, n) = (library, ''book_id'', ''BK'', 8)
      \<or> (k, key, p, n) = (hostel, ''occupancy_id'', ''HOC'', 6)
      \<or> (k, key, p, n) = (fees, ''receipt_id'', ''RCPT'', 8)
      \<or> (k, key, p, n) = (app_users, ''user_id'', ''USR'', 6)"
    unfolding id_factories_def by (simp only: set_simps insert_iff empty_iff simp_thms)
  then show ?thesis
  proof (elim disjE)
    assume "(k, key, p, n) = (admissions, ''admission_id'', ''ADM'', 6)"
    then have "k = admissions" "key = ''admission_id''" "p = ''ADM''" "n = 6"
      by (simp_all only: prod.inject)
    with admissions_factory show ?thesis by simp
  next
    assume "(k, key, p, n) = (library, ''book_id'', ''BK'', 8)"
    then have "k = library" "key = ''book_id''" "p = ''BK''" "n = 8"
      by (simp_all only: prod.inject)
    with library_factory show ?thesis by simp
  next
    assume "(k, key, p, n) = (hostel, ''occupancy_id'', ''HOC'', 6)"
    then have "k = hostel" "key = ''occupancy_id''" "p = ''HOC''" "n = 6"
      by (simp_all only: prod.inject)
    with hostel_factory show ?thesis by simp
  next
    assume "(k, key, p, n) = (fees, ''receipt_id'', ''RCPT'', 8)"
    then have "k = fees" "key = ''receipt_id''" "p = ''RCPT''" "n = 8"
      by (simp_all only: prod.inject)
    with fees_factory show ?thesis by simp
  next
    assume "(k, key, p, n) = (app_users, ''user_id'', ''USR'', 6)"
    then have "k = app_users" "key = ''user_id''" "p = ''USR''" "n = 6"
      by (simp_all only: prod.inject)
    with app_users_factory show ?thesis by simp
  qed
qed

lemma post_record_Inr:
  assumes "post_record en k payload cu w = (Inr data, w')"
  shows "instantiate en (create_model k) payload = Inr data"
  using assms
  by (auto simp: post_record_def add_record_def split: sum.splits prod.splits)

text \<open>
  C7, as the code has it. A create whose payload omits the identifier field returns a
  record whose identifier is the prefix of the kind (\<open>ADM\<close>, \<open>BK\<close>, \<open>HOC\<close>,
  \<open>RCPT\<close>, \<open>USR\<close>), a hyphen, and the first 6 or 8 hexadecimal digits of a random
  UUID in upper case. Two consecutive creates return the same identifier exactly when
  these leading digits of their two UUIDs are the same: no check for duplicates is made.
\<close>

theorem generated_identifier_format:
  assumes "(k, key, p, n) \<in> set id_factories"
    and "map_of payload key = None" and "post_record en k payload cu w = (Inr data, w1)"
  shows "(\<exists>h. map_of (inst_dict data) key = Some (PyStr (p @ ''-'' @ h)) \<and> length h = n
            \<and> set h \<subseteq> set ''0123456789ABCDEF''
            \<and> h = upper (take n (uuid_hex (uuid4 (urandom en)))))
       \<and> (map_of payload' key = None \<and> post_record en' k payload' cu' w1 = (Inr data', w2) \<longrightarrow>
            (map_of (inst_dict data') key = map_of (inst_dict data) key
               \<longleftrightarrow> take n (uuid_hex (uuid4 (urandom en'))) = take n (uuid_hex (uuid4 (urandom en)))))"
proof -
  note f = id_factories_field [OF assms(1)]
  have d: "map_of (inst_dict data) key = Some (PyStr (gen_id p n (uuid4 (urandom en))))"
    using instantiate_factory_id [OF post_record_Inr [OF assms(3)]] f assms(2) by blast
  have one: "\<exists>h. map_of (inst_dict data) key = Some (PyStr (p @ ''-'' @ h)) \<and> length h = n
            \<and> set h \<subseteq> set ''0123456789ABCDEF''
            \<and> h = upper (take n (uuid_hex (uuid4 (urandom en))))"
    using d f upper_take_hex [of n "uuid4 (urandom en)"]
    by (intro exI [of _ "upper (take n (uuid_hex (uuid4 (urandom en))))"])
       (simp add: gen_id_def upper_def)
  have two: "map_of (inst_dict data') key = map_of (inst_dict data) key
               \<longleftrightarrow> take n (uuid_hex (uuid4 (urandom en'))) = take n (uuid_hex (uuid4 (urandom en)))"
    if "map_of payload' key = None" and "post_record en' k payload' cu' w1 = (Inr data', w2)"
  proof -
    have "map_of (inst_dict data') key = Some (PyStr (gen_id p n (uuid4 (urandom en'))))"
      using instantiate_factory_id [OF post_record_Inr [OF that(2)]] f that(1) by blast
    with d show ?thesis by (simp add: gen_id_eq)
  qed
  from one two show ?thesis by blast
qed
lemma post_record_example:
  "fst (post_record example_env app_users user_payload example_user example_world) = Inr created_user"
  by code_simp

lemma post_record_second:
  "fst (post_record second_env app_users user_payload example_user
          (snd (post_record example_env app_users user_payload example_user example_world)))
     = Inr created_user"
  by code_simp

lemma uuid4_examples: "uuid4 (urandom example_env) \<noteq> uuid4 (urandom second_env)"
  by (simp add: example_env_def second_env_def uuid4_def)

theorem generated_identifier_format_witness:
  "\<exists>h. map_of (inst_dict created_user) ''user_id'' = Some (PyStr (''USR'' @ ''-'' @ h))
       \<and> length h = 6 \<and> set h \<subseteq> set ''0123456789ABCDEF''"
proof -
  let ?w1 = "snd (post_record example_env app_users user_payload example_user example_world)"
  have h1: "(app_users, ''user_id'', ''USR'', 6) \<in> set id_factories"
    by (simp add: id_factories_def)
  have h2: "map_of user_payload ''user_id'' = None"
    by (simp add: user_payload_def)
  have h3: "post_record example_env app_users user_payload example_user example_world
              = (Inr created_user, ?w1)"
    using post_record_example by (simp add: prod_eq_iff)
  from generated_identifier_format [OF h1 h2 h3] show ?thesis by blast
qed

text \<open>
  C7, as the claim states it, fails: two consecutive creates of an application user, the
  second with a different random UUID, return the same identifier \<open>USR-000000\<close>.
\<close>

theorem consecutive_creates_same_identifier:
  "fst (post_record example_env app_users user_payload example_user example_world) = Inr created_user
   \<and> fst (post_record second_env app_users user_payload example_user
            (snd (post_record example_env app_users user_payload example_user example_world)))
       = Inr created_user
   \<and> uuid4 (urandom example_env) \<noteq> uuid4 (urandom second_env)
   \<and> map_of (inst_dict created_user) ''user_id'' = Some (PyStr ''USR-000000'')"
  using post_record_example post_record_second uuid4_examples
  by (simp add: created_user_def)

section \<open>The round trip through the mapper\<close>

lemma admission_instance:
  "instantiate example_env (create_model admissions) admission_payload = Inr example_admission"
  by code_simp

lemma admission_round_trip:
  "round_trip example_env admissions example_admission = Inr returned_admission"
  by code_simp

lemma book_instance:
  "instantiate example_env (create_model library) book_payload = Inr example_book"
  by code_simp

lemma book_round_trip:
  "round_trip example_env library example_book = Inl ValidationError"
  by code_simp

text \<open>
  C2. The claim: mapping a valid create payload to a row and the row back yields the
  record. The code: \<open>map_model_to_row\<close> writes \<open>str(None)\<close>, the text
  \<open>None\<close>, for an optional field that is not set. An admission created without
  remarks comes back with the string \<open>None\<close> as its remarks, and a book
  created without issue date does not come back at all: the text \<open>None\<close> is not a
  date and \<open>map_row_to_model\<close> raises a validation error.
\<close>

theorem round_trip_unset_optional_field:
  "instantiate example_env (create_model admissions) admission_payload = Inr example_admission
   \<and> round_trip example_env admissions example_admission = Inr returned_admission
   \<and> map_of (inst_dict example_admission) ''remarks'' = Some PyNone
   \<and> map_of (inst_dict returned_admission) ''remarks'' = Some (PyStr ''None'')
   \<and> inst_dict returned_admission \<noteq> inst_dict example_admission
   \<and> instantiate example_env (create_model library) book_payload = Inr example_book
   \<and> round_trip example_env library example_book = Inl ValidationError"
  using admission_instance admission_round_trip book_instance book_round_trip
  by (simp add: example_admission_def returned_admission_def)

section \<open>Partial update\<close>

lemma update_append_new:
  "k \<notin> fst ` set d \<Longrightarrow> AList.update k v d = d @ [(k, v)]"
  by (induction d) auto

lemma dict_update_distinct:
  "distinct (map fst (d @ kvs)) \<Longrightarrow> dict_update d kvs = d @ kvs"
proof (induction kvs arbitrary: d)
  case Nil
  then show ?case by (simp add: dict_update_def)
next
  case (Cons kv kvs)
  from Cons.prems have new: "fst kv \<notin> fst ` set d" by auto
  from Cons.prems have "distinct (map fst ((d @ [kv]) @ kvs))" by simp
  from Cons.IH [OF this] have "dict_update (d @ [kv]) kvs = d @ kv # kvs" by simp
  moreover have "dict_update d (kv # kvs) = dict_update (AList.update (fst kv) (snd kv) d) kvs"
    by (simp add: dict_update_def)
  ultimately show ?case using update_append_new [OF new, of "snd kv"] by simp
qed

lemma py_dict_distinct: "distinct (map fst kvs) \<Longrightarrow> py_dict kvs = kvs"
  using dict_update_distinct [of "[]" kvs] by (simp add: py_dict_def)

lemma map_of_dict_update:
  "map_of (dict_update d kvs) k =
     (case map_of (rev kvs) k of None \<Rightarrow> map_of d k | Some v \<Rightarrow> Some v)"
proof (induction kvs arbitrary: d)
  case Nil
  then show ?case by (simp add: dict_update_def)
next
  case (Cons kv kvs)
  have "dict_update d (kv # kvs) = dict_update (AList.update (fst kv) (snd kv) d) kvs"
    by (simp add: dict_update_def)
  with Cons.IH [of "AList.update (fst kv) (snd kv) d"] show ?case
    by (cases kv) (auto simp: AList.update_conv' map_add_def split: option.splits)
qed

lemma map_of_dict_update_frame:
  assumes "k \<notin> fst ` set kvs"
  shows "map_of (dict_update d kvs) k = map_of d k"
proof -
  from assms have "k \<notin> fst ` set (rev kvs)" by simp
  then have "map_of (rev kvs) k = None" by (simp add: map_of_eq_None_iff)
  then show ?thesis by (simp add: map_of_dict_update)
qed

lemma map_of_dict_update_set:
  assumes "distinct (map fst kvs)" and "map_of kvs k = Some v"
  shows "map_of (dict_update d kvs) k = Some v"
proof -
  from assms have "(k, v) \<in> set (rev kvs)" by (auto dest: map_of_SomeD)
  moreover from assms(1) have "distinct (map fst (rev kvs))" by (simp add: rev_map [symmetric])
  ultimately have "map_of (rev kvs) k = Some v" by (rule map_of_is_SomeI [rotated])
  then show ?thesis by (simp add: map_of_dict_update)
qed

lemma fst_set_exclude_unset:
  "fst ` set (model_dump_exclude_unset data) \<subseteq> fields_set data"
  by (auto simp: model_dump_exclude_unset_def)

lemma map_of_filter_keys:
  "map_of (filter (\<lambda>(k, v). k \<in> S) d) f = (if f \<in> S then map_of d f else None)"
  by (induction d) auto

lemma model_copy_nothing_set:
  "fields_set data = {} \<Longrightarrow> model_copy existing (model_dump_exclude_unset data) = existing"
  by (simp add: model_copy_def model_dump_exclude_unset_def dict_update_def)

lemma model_copy_frame:
  "f \<notin> fields_set data \<Longrightarrow>
     map_of (inst_dict (model_copy existing (model_dump_exclude_unset data))) f
       = map_of (inst_dict existing) f"
  using fst_set_exclude_unset [of data]
  by (auto simp: model_copy_def intro!: map_of_dict_update_frame)

lemma model_copy_set:
  assumes "f \<in> fields_set data" and "distinct (map fst (inst_dict data))"
    and "map_of (inst_dict data) f = Some v"
  shows "map_of (inst_dict (model_copy existing (model_dump_exclude_unset data))) f = Some v"
proof -
  have "distinct (map fst (model_dump_exclude_unset data))"
    unfolding model_dump_exclude_unset_def using assms(2) by (rule distinct_map_filter)
  moreover have "map_of (model_dump_exclude_unset data) f = Some v"
    using assms(1,3) by (simp add: model_dump_exclude_unset_def map_of_filter_keys)
  ultimately show ?thesis
    by (simp add: model_copy_def map_of_dict_update_set)
qed

lemma record_row_found:
  assumes d: "distinct headers" and ne: "item_id \<noteq> []"
    and r: "r \<in> set (rows_as_records (headers # rest))"
    and m: "map_of r col = Some item_id"
  shows "\<exists>n. search_values (headers # rest) item_id col = Inr n"
proof -
  from r obtain row where row: "row \<in> set rest"
    and r_def: "r = py_dict (zip headers (row @ replicate (length headers - length row) []))"
    by (auto simp: rows_as_records_def split: if_splits)
  let ?padded = "row @ replicate (length headers - length row) []"
  have "distinct (map fst (zip headers ?padded))"
    using d by (simp add: map_fst_zip_take)
  then have "r = zip headers ?padded"
    using r_def by (simp add: py_dict_distinct)
  with m have "(col, item_id) \<in> set (zip headers ?padded)"
    by (auto dest: map_of_SomeD)
  then obtain i where i: "i < length headers" "i < length ?padded"
    "headers ! i = col" "?padded ! i = item_id"
    by (auto simp: in_set_zip)
  have c: "list_index col headers = Some i"
    using list_index_distinct [OF d i(1)] i(3) by simp
  have lt: "i < length row"
  proof (rule ccontr)
    assume "\<not> i < length row"
    with i(2) have "?padded ! i = []" by (simp add: nth_append)
    with i(4) ne show False by simp
  qed
  with i(4) have "row ! i = item_id" by (simp add: nth_append)
  with lt row have "\<exists>x \<in> set (headers # rest). i < length x \<and> x ! i = item_id" by auto
  then have "scan_rows i item_id 0 (headers # rest) \<noteq> None"
    by (simp only: scan_rows_None) blast
  then obtain n where "scan_rows i item_id 0 (headers # rest) = Some n" by blast
  with c show ?thesis by (simp add: search_values_def)
qed

lemma get_all_rows_ok:
  assumes "faults w = []" and "drive w sid = Some ss" and "find_sheet t ss = Some s"
  shows "get_all_rows creds sid t w =
     (Inr (rows_as_records (cells s)), w\<lparr>requests := requests w @ [ValuesGet sid t]\<rparr>)"
  using values_get_ok [OF assms] by (simp add: get_all_rows_def)

lemma update_record_ok:
  assumes f: "faults w = []" and sid: "get_spreadsheet_id cu w = Inr sid"
    and creds: "get_google_credentials en cu = Inr creds"
    and d: "drive w sid = Some ss" and s: "find_sheet (sheet_name k) ss = Some s"
    and c: "cells s = headers # rest" and dh: "distinct headers"
    and sh: "map_of SHEET_STRUCTURE (sheet_name k) = Some hs" and ne: "item_id \<noteq> []"
    and r: "find (\<lambda>r. map_of r (id_field k) = Some item_id) (rows_as_records (cells s)) = Some r"
    and e: "map_row_to_model en r (model k) = Inr existing"
  shows "\<exists>w'. update_record en k item_id data cu w =
           (Inr (model_copy existing (model_dump_exclude_unset data)), w')"
proof -
  let ?w1 = "w\<lparr>requests := requests w @ [ValuesGet sid (sheet_name k)]\<rparr>"
  let ?upd = "model_copy existing (model_dump_exclude_unset data)"
  have g: "get_all_rows creds sid (sheet_name k) w = (Inr (rows_as_records (cells s)), ?w1)"
    by (rule get_all_rows_ok [OF f d s])
  from r have "r \<in> set (rows_as_records (headers # rest))" "map_of r (id_field k) = Some item_id"
    using c by (auto simp: find_Some_iff)
  from record_row_found [OF dh ne this] c
  obtain n where n: "search_values (cells s) item_id (id_field k) = Inr n" by auto
  obtain row where row: "map_model_to_row en ?upd (sheet_name k) = Inr row"
    using sh by (simp add: map_model_to_row_def)
  have u: "update_row creds sid (sheet_name k) item_id (id_field k) row ?w1 =
     (Inr (), ?w1\<lparr>requests := requests ?w1 @ [ValuesGet sid (sheet_name k),
                       ValuesUpdate sid (sheet_name k) n row],
                  drive := (drive ?w1)(sid \<mapsto> map_sheet (sheet_name k) (write_row (n - 1) row) ss)\<rparr>)"
    by (rule update_row_ok [where s = s]) (use f d s n in simp_all)
  show ?thesis
    using sid creds g r e row u by (simp add: update_record_def Let_def)
qed

text \<open>
  Where the row of the existing record maps to a model, Update is a partial patch. The
  acting user is provisioned, the service answers, the sheet of the record kind has
  distinct headers, and \<open>existing\<close> is the model of the first data row whose
  identifier cell is the requested (non-empty) identifier. Then
  \<open>update_record\<close> returns \<open>existing\<close> with the fields that the update payload
  sets copied onto it: with no field set the returned record is \<open>existing\<close> itself;
  every field that the payload does not set has the value it has in \<open>existing\<close>; and a
  field that the payload sets has the value of the payload.
\<close>

lemma update_record_patches_model:
  assumes "faults w = []" and "get_spreadsheet_id cu w = Inr sid"
    and "get_google_credentials en cu = Inr creds"
    and "drive w sid = Some ss" and "find_sheet (sheet_name k) ss = Some s"
    and "cells s = headers # rest" and "distinct headers"
    and "map_of SHEET_STRUCTURE (sheet_name k) = Some hs" and "item_id \<noteq> []"
    and "find (\<lambda>r. map_of r (id_field k) = Some item_id) (rows_as_records (cells s)) = Some r"
    and "map_row_to_model en r (model k) = Inr existing"
  shows "\<exists>updated w'. update_record en k item_id data cu w = (Inr updated, w')
           \<and> (fields_set data = {} \<longrightarrow> updated = existing)
           \<and> (\<forall>f. f \<notin> fields_set data \<longrightarrow>
                  map_of (inst_dict updated) f = map_of (inst_dict existing) f)
           \<and> (\<forall>f v. f \<in> fields_set data \<and> distinct (map fst (inst_dict data))
                    \<and> map_of (inst_dict data) f = Some v \<longrightarrow>
                  map_of (inst_dict updated) f = Some v)"
proof -
  from update_record_ok [OF assms, of data]
  obtain w' where "update_record en k item_id data cu w =
           (Inr (model_copy existing (model_dump_exclude_unset data)), w')"
    by blast
  then show ?thesis
    using model_copy_nothing_set [of data existing] model_copy_frame [of _ data existing]
      model_copy_set [of _ data _ existing]
    by (intro exI [of _ "model_copy existing (model_dump_exclude_unset data)"] exI [of _ w']) blast
qed
lemma role_patch_instance:
  "instantiate example_env (update_model app_users) [(''role'', PyStr ''teacher'')] = Inr role_patch"
  by code_simp

lemma update_record_patches_model_example:
  "\<exists>updated w'. update_record example_env app_users ''USR-00AA11'' role_patch example_user example_world
        = (Inr updated, w')
     \<and> map_of (inst_dict updated) ''username'' = Some (PyStr ''ann'')
     \<and> map_of (inst_dict updated) ''password'' = Some (PyStr ''pw'')
     \<and> map_of (inst_dict updated) ''user_id'' = Some (PyStr ''USR-00AA11'')
     \<and> map_of (inst_dict updated) ''role'' = Some (PyStr ''teacher'')"
proof -
  let ?s = "\<lparr>sheetId = 5, title = ''Users'',
             cells = [users_header, [''USR-00AA11'', ''ann'', ''pw'', ''admin'']]\<rparr>"
  let ?r = "[(''User ID'', ''USR-00AA11''), (''Username'', ''ann''), (''Password'', ''pw''),
             (''Role'', ''admin'')]"
  have h1: "faults example_world = []" by (simp add: example_world_def)
  have h2: "get_spreadsheet_id example_user example_world = Inr example_sid"
    by (simp add: get_spreadsheet_id_def get_user_by_email_def example_world_def example_user_def
        example_sid_def)
  have h3: "get_google_credentials example_env example_user = Inr example_creds"
    by (simp add: get_google_credentials_def example_env_def example_user_def example_creds_def)
  have h4: "drive example_world example_sid = Some [?s]" by (simp add: example_world_def)
  have h5: "find_sheet (sheet_name app_users) [?s] = Some ?s"
    by (simp add: find_sheet_def app_users_def)
  have h6: "cells ?s = users_header # [[''USR-00AA11'', ''ann'', ''pw'', ''admin'']]" by simp
  have h7: "distinct users_header" by (simp add: users_header_def)
  have h8: "map_of SHEET_STRUCTURE (sheet_name app_users) = Some users_header"
    by (simp add: SHEET_STRUCTURE_def app_users_def users_header_def)
  have h9: "''USR-00AA11'' \<noteq> []" by simp
  have h10: "find (\<lambda>r. map_of r (id_field app_users) = Some ''USR-00AA11'')
               (rows_as_records (cells ?s)) = Some ?r"
    by code_simp
  have h11: "map_row_to_model example_env ?r (model app_users) = Inr existing_user"
    by code_simp
  from update_record_patches_model [OF h1 h2 h3 h4 h5 h6 h7 h8 h9 h10 h11, of role_patch]
  obtain updated w' where u: "update_record example_env app_users ''USR-00AA11'' role_patch
        example_user example_world = (Inr updated, w')"
    and frame: "\<forall>f. f \<notin> fields_set role_patch \<longrightarrow>
                  map_of (inst_dict updated) f = map_of (inst_dict existing_user) f"
    and changed: "\<forall>f v. f \<in> fields_set role_patch \<and> distinct (map fst (inst_dict role_patch))
                    \<and> map_of (inst_dict role_patch) f = Some v \<longrightarrow>
                  map_of (inst_dict updated) f = Some v"
    by blast
  have a: "map_of (inst_dict updated) ''username'' = Some (PyStr ''ann'')"
    using frame [rule_format, of "''username''"] by (simp add: role_patch_def existing_user_def)
  have b: "map_of (inst_dict updated) ''password'' = Some (PyStr ''pw'')"
    using frame [rule_format, of "''password''"] by (simp add: role_patch_def existing_user_def)
  have c: "map_of (inst_dict updated) ''user_id'' = Some (PyStr ''USR-00AA11'')"
    using frame [rule_format, of "''user_id''"] by (simp add: role_patch_def existing_user_def)
  have d: "map_of (inst_dict updated) ''role'' = Some (PyStr ''teacher'')"
    using changed [rule_format, of "''role''" "PyStr ''teacher''"] by (simp add: role_patch_def)
  from u a b c d show ?thesis by blast
qed

lemma create_book_result:
  "fst (post_record example_env library book_payload example_user library_world) = Inr example_book"
  by code_simp

lemma create_book_drive:
  "drive (snd (post_record example_env library book_payload example_user library_world)) example_sid
     = Some [\<lparr>sheetId = 2, title = ''Library'', cells = [library_header, stored_book_row]\<rparr>]"
  by code_simp

lemma update_book_empty_patch:
  "fst (put_record example_env library ''BK-00000000'' [] example_user
          (snd (post_record example_env library book_payload example_user library_world)))
     = Inl ValidationError"
  by code_simp

lemma update_book_title_patch:
  "fst (put_record example_env library ''BK-00000000'' [(''title'', PyStr ''Opticks'')] example_user
          (snd (post_record example_env library book_payload example_user library_world)))
     = Inl ValidationError"
  by code_simp

text \<open>
  C3. The claim: for every existing record, Update with an empty patch returns the
  record unchanged, and Update with a patch of one field returns it with that field
  changed. The code: a book is created from a payload that gives no issue date; Create
  returns the record and stores its row, with the text \<open>None\<close> in the cells of the
  optional fields that are not set. Update of that record with the empty patch, and
  Update with a patch of the title only, return no record: \<open>map_row_to_model\<close>
  raises a validation error on the stored row, since the text \<open>None\<close> is not a
  date, and the request is answered with status 500.
\<close>

theorem update_record_fails_on_created_book:
  "fst (post_record example_env library book_payload example_user library_world) = Inr example_book
   \<and> map_of (inst_dict example_book) ''book_id'' = Some (PyStr ''BK-00000000'')
   \<and> drive (snd (post_record example_env library book_payload example_user library_world)) example_sid
       = Some [\<lparr>sheetId = 2, title = ''Library'', cells = [library_header, stored_book_row]\<rparr>]
   \<and> fst (put_record example_env library ''BK-00000000'' [] example_user
            (snd (post_record example_env library book_payload example_user library_world)))
       = Inl ValidationError
   \<and> fst (put_record example_env library ''BK-00000000'' [(''title'', PyStr ''Opticks'')] example_user
            (snd (post_record example_env library book_payload example_user library_world)))
       = Inl ValidationError
   \<and> http_status ValidationError = 500"
  using create_book_result create_book_drive update_book_empty_patch update_book_title_patch
  by (simp add: example_book_def)

end
